theory Spec2Isabelle
  imports Complex_Main "HOL-Library.Sublist"
begin

section \<open>Python values, dictionaries and exceptions\<close>

text \<open>
  The service passes JSON-shaped Python values around: the request context, the tool
  arguments, the replies of the remote skills and the payloads of the tools. A float is
  kept as mantissa and binary exponent (\<open>PFloat m e\<close> stands for \<open>m * 2 ^ e\<close>); a
  dictionary is an association list read with \<open>map_of\<close>.
\<close>

datatype pyval =
    PNone
  | PBool bool
  | PInt int
  | PFloat int int
  | PStr string
  | PList "pyval list"
  | PDict "(string \<times> pyval) list"

type_synonym pydict = "(string \<times> pyval) list"

text \<open>Python's truth value testing (\<open>bool(v)\<close>, \<open>if v\<close>, \<open>not v\<close>).\<close>

fun truthy :: "pyval \<Rightarrow> bool" where
  "truthy PNone = False"
| "truthy (PBool b) = b"
| "truthy (PInt n) = (n \<noteq> 0)"
| "truthy (PFloat m e) = (m \<noteq> 0)"
| "truthy (PStr s) = (s \<noteq> [])"
| "truthy (PList xs) = (xs \<noteq> [])"
| "truthy (PDict d) = (d \<noteq> [])"

text \<open>
  The exceptions the modelled code raises or catches. \<open>KernelException\<close> carries the
  HTTP status and the body text; \<open>TimeoutExpired\<close> is \<open>subprocess.TimeoutExpired\<close>;
  \<open>OtherError\<close> stands for any further exception class (a transport error of the HTTP
  client, a JSON decoding error, an \<open>OSError\<close>), all of which are instances of
  \<open>Exception\<close> and none of which is a \<open>KernelException\<close>.
\<close>

datatype exn =
    Exception string
  | KernelException nat string
  | ValueError string
  | TypeError string
  | KeyError string
  | AttributeError string
  | ValidationError string
  | TimeoutExpired string
  | OtherError string

text \<open>\<open>str(e)\<close>: the message of the exception.\<close>

fun exn_str :: "exn \<Rightarrow> string" where
  "exn_str (Exception m) = m"
| "exn_str (KernelException code m) = m"
| "exn_str (ValueError m) = m"
| "exn_str (TypeError m) = m"
| "exn_str (KeyError m) = m"
| "exn_str (AttributeError m) = m"
| "exn_str (ValidationError m) = m"
| "exn_str (TimeoutExpired m) = m"
| "exn_str (OtherError m) = m"

fun is_kernel_exception :: "exn \<Rightarrow> bool" where
  "is_kernel_exception (KernelException code m) = True"
| "is_kernel_exception e = False"

fun is_timeout_expired :: "exn \<Rightarrow> bool" where
  "is_timeout_expired (TimeoutExpired m) = True"
| "is_timeout_expired e = False"

text \<open>A name in single quotes, as Python's messages print it.\<close>

definition quote :: "string \<Rightarrow> string" where
  "quote s = [CHR 0x27] @ s @ [CHR 0x27]"

text \<open>\<open>d.get(k, default)\<close> and \<open>d[k]\<close> on a dictionary.\<close>

definition dict_get :: "pydict \<Rightarrow> string \<Rightarrow> pyval \<Rightarrow> pyval" where
  "dict_get d k dflt = (case map_of d k of None \<Rightarrow> dflt | Some v \<Rightarrow> v)"

definition dict_index :: "pydict \<Rightarrow> string \<Rightarrow> exn + pyval" where
  "dict_index d k =
     (case map_of d k of
        None \<Rightarrow> Inl (KeyError (quote k))
      | Some v \<Rightarrow> Inr v)"

text \<open>
  \<open>{k: d[k] for k in keys}\<close>, the way the tool wrappers build their payload from a tool
  result: the first missing key raises.
\<close>

fun select_keys :: "pydict \<Rightarrow> string list \<Rightarrow> exn + pydict" where
  "select_keys d [] = Inr []"
| "select_keys d (k # ks) =
     (case dict_index d k of
        Inl e \<Rightarrow> Inl e
      | Inr v \<Rightarrow> (case select_keys d ks of Inl e \<Rightarrow> Inl e | Inr rest \<Rightarrow> Inr ((k, v) # rest)))"

text \<open>\<open>len(v)\<close>: defined on strings, lists and dictionaries, a \<open>TypeError\<close> otherwise.\<close>

fun py_len :: "pyval \<Rightarrow> exn + nat" where
  "py_len (PStr s) = Inr (length s)"
| "py_len (PList xs) = Inr (length xs)"
| "py_len (PDict d) = Inr (length d)"
| "py_len v = Inl (TypeError ''object has no len()'')"

text \<open>
  \<open>v[:3]\<close> on a value that has a length: a string and a list can be sliced, a
  dictionary cannot (the slice is looked up as a key and the lookup raises).
\<close>

fun py_slice3 :: "pyval \<Rightarrow> exn + pyval" where
  "py_slice3 (PStr s) = Inr (PStr (take 3 s))"
| "py_slice3 (PList xs) = Inr (PList (take 3 xs))"
| "py_slice3 v = Inl (TypeError ''unhashable type: slice'')"

text \<open>
  \<open>Exception(v)\<close> as the tool wrappers raise it: \<open>v\<close> is the \<open>error\<close> entry of a
  tool result, which the tools always fill with a string.
\<close>

fun exception_of :: "pyval \<Rightarrow> exn" where
  "exception_of (PStr m) = Exception m"
| "exception_of v = Exception []"

text \<open>\<open>s.lower()\<close> on an ASCII string.\<close>

definition lower_char :: "char \<Rightarrow> char" where
  "lower_char c =
     (let n = (of_char c :: nat) in if 65 \<le> n \<and> n \<le> 90 then char_of (n + 32) else c)"

definition lower :: "string \<Rightarrow> string" where
  "lower s = map lower_char s"

text \<open>
  Containment without regard to letter case, written out letter by letter and without
  \<open>lower\<close>: two characters are the same letter when they are equal or one is an ASCII
  capital and the other its small letter. This is the reading of "compared
  case-insensitively" against which \<open>_is_fixable_sql_error\<close> is checked.
\<close>

definition is_ascii_upper :: "char \<Rightarrow> bool" where
  "is_ascii_upper c = (65 \<le> (of_char c :: nat) \<and> (of_char c :: nat) \<le> 90)"

definition same_letter :: "char \<Rightarrow> char \<Rightarrow> bool" where
  "same_letter a b =
     (a = b \<or>
      (is_ascii_upper a \<and> (of_char b :: nat) = of_char a + 32) \<or>
      (is_ascii_upper b \<and> (of_char a :: nat) = of_char b + 32))"

fun starts_with_ignoring_case :: "string \<Rightarrow> string \<Rightarrow> bool" where
  "starts_with_ignoring_case s [] = True"
| "starts_with_ignoring_case [] (k # ks) = False"
| "starts_with_ignoring_case (c # cs) (k # ks) =
     (same_letter c k \<and> starts_with_ignoring_case cs ks)"

fun contains_ignoring_case :: "string \<Rightarrow> string \<Rightarrow> bool" where
  "contains_ignoring_case [] keyword = (keyword = [])"
| "contains_ignoring_case (c # cs) keyword =
     (starts_with_ignoring_case (c # cs) keyword \<or> contains_ignoring_case cs keyword)"

section \<open>The orchestrator (routes.py)\<close>

datatype tool_response_type = SQL_QUERY | QUERY_RESULTS | CHART_TYPE | CHART_IMAGE | ERROR

record agent_response =
  response_type :: tool_response_type
  data :: pydict
  tool_used :: string
  success :: bool

record agent_request =
  req_message :: string
  req_context :: "pydict option"

record tool_router_decision =
  tool :: string
  arguments :: pydict

datatype skill = Skill string string

text \<open>
  The collaborators of the orchestrator are parameters. A kernel runs a skill on an input
  and returns its JSON reply or raises; an executor is \<open>execute_tool\<close>: it runs the named
  tool on its arguments and returns the payload or raises. Both act on a state \<open>'w\<close> of the
  outside world, so that two calls with the same input can answer differently.
\<close>

type_synonym 'w kernel = "skill \<Rightarrow> string \<Rightarrow> pyval \<Rightarrow> 'w \<Rightarrow> (exn + pyval) \<times> 'w"

type_synonym 'w executor = "string \<Rightarrow> pydict \<Rightarrow> 'w \<Rightarrow> (exn + pydict) \<times> 'w"

text \<open>
  The orchestrator's state is the outside world together with the list of the
  \<open>execute_tool\<close> calls issued so far, oldest first. The list is bookkeeping of the model:
  the claims about the number of retries are statements about it.
\<close>

type_synonym call = "string \<times> pydict"

type_synonym 'w turn = "call list \<times> 'w"

definition call_tool ::
  "'w executor \<Rightarrow> string \<Rightarrow> pydict \<Rightarrow> 'w turn \<Rightarrow> (exn + pydict) \<times> 'w turn" where
  "call_tool exec tool_name args s =
     (case exec tool_name args (snd s) of
        (r, w') \<Rightarrow> (r, (fst s @ [(tool_name, args)], w')))"

text \<open>
  \<open>_fallback_tool_decision(message, context)\<close>. The guards are \<open>context.get(...)\<close>
  tested for truth; the selected values are read with \<open>context[...]\<close>, which raises
  \<open>KeyError\<close> on a missing key, and with \<open>context.get(..., default)\<close>.
\<close>

definition fallback_tool_decision :: "string \<Rightarrow> pydict \<Rightarrow> exn + tool_router_decision" where
  "fallback_tool_decision message context =
     (if truthy (dict_get context ''query'' PNone) \<and> \<not> truthy (dict_get context ''headers'' PNone)
      then (case dict_index context ''query'' of
              Inl e \<Rightarrow> Inl e
            | Inr q \<Rightarrow> Inr \<lparr>tool = ''execute_sql'', arguments = [(''query'', q)]\<rparr>)
      else if truthy (dict_get context ''headers'' PNone)
      then (case dict_index context ''headers'' of
              Inl e \<Rightarrow> Inl e
            | Inr h \<Rightarrow>
                Inr \<lparr>tool = ''generate_chart'',
                     arguments = [(''query'', dict_get context ''query'' (PStr '''')),
                                  (''headers'', h),
                                  (''rows'', dict_get context ''rows'' (PList []))]\<rparr>)
      else Inr \<lparr>tool = ''generate_sql'', arguments = [(''question'', PStr message)]\<rparr>)"

text \<open>\<open>_error_response(error, tool_used)\<close>; \<open>tool_used\<close> defaults to \<open>"unknown"\<close>.\<close>

definition error_response :: "string \<Rightarrow> string \<Rightarrow> agent_response" where
  "error_response error used =
     \<lparr>response_type = ERROR, data = [(''error'', PStr error)], tool_used = used,
      success = False\<rparr>"

text \<open>\<open>_is_fixable_sql_error(error)\<close>: some keyword occurs in the lower-cased message.\<close>

definition fixable_errors :: "string list" where
  "fixable_errors = [''no such function'', ''syntax error'', ''no such column'', ''near'']"

definition is_fixable_sql_error :: "string \<Rightarrow> bool" where
  "is_fixable_sql_error error = list_ex (\<lambda>err. sublist err (lower error)) fixable_errors"

text \<open>
  \<open>_retry_sql_with_correction(error, message, context)\<close>: one \<open>generate_sql\<close> call with
  the error as feedback, then one \<open>execute_sql\<close> call on the corrected query. Every
  exception inside (also the \<open>KeyError\<close> of \<open>corrected["sql_query"]\<close>) is caught and
  makes the result \<open>None\<close>.
\<close>

definition retry_sql_with_correction ::
  "'w executor \<Rightarrow> string \<Rightarrow> string \<Rightarrow> pydict \<Rightarrow> 'w turn \<Rightarrow> agent_response option \<times> 'w turn" where
  "retry_sql_with_correction exec error message context s =
     (let original_question = dict_get context ''original_question'' (PStr message) in
      case call_tool exec ''generate_sql''
             [(''question'', original_question), (''error_feedback'', PStr error)] s of
        (Inl retry_error, s1) \<Rightarrow> (None, s1)
      | (Inr corrected, s1) \<Rightarrow>
          (case dict_index corrected ''sql_query'' of
             Inl retry_error \<Rightarrow> (None, s1)
           | Inr q \<Rightarrow>
               (case call_tool exec ''execute_sql'' [(''query'', q)] s1 of
                  (Inl retry_error, s2) \<Rightarrow> (None, s2)
                | (Inr payload, s2) \<Rightarrow>
                    (Some \<lparr>response_type = QUERY_RESULTS, data = payload,
                           tool_used = ''execute_sql'', success = True\<rparr>, s2))))"

text \<open>\<open>_execute_with_retry(decision, message, context)\<close>.\<close>

definition response_types :: "(string \<times> tool_response_type) list" where
  "response_types =
     [(''generate_sql'', SQL_QUERY), (''execute_sql'', QUERY_RESULTS),
      (''classify_chart_type'', CHART_TYPE), (''generate_chart'', CHART_IMAGE)]"

definition execute_with_retry ::
  "'w executor \<Rightarrow> tool_router_decision \<Rightarrow> string \<Rightarrow> pydict \<Rightarrow> 'w turn \<Rightarrow> agent_response \<times> 'w turn" where
  "execute_with_retry exec decision message context s =
     (case call_tool exec (tool decision) (arguments decision) s of
        (Inr payload, s1) \<Rightarrow>
          (\<lparr>response_type =
               (case map_of response_types (tool decision) of None \<Rightarrow> ERROR | Some t \<Rightarrow> t),
             data = payload, tool_used = tool decision, success = True\<rparr>, s1)
      | (Inl e, s1) \<Rightarrow>
          (let error_msg = exn_str e in
           if tool decision = ''execute_sql'' \<and> is_fixable_sql_error error_msg
           then (case retry_sql_with_correction exec error_msg message context s1 of
                   (Some retry_response, s2) \<Rightarrow> (retry_response, s2)
                 | (None, s2) \<Rightarrow> (error_response error_msg (tool decision), s2))
           else (error_response error_msg (tool decision), s1)))"

text \<open>
  \<open>ToolRouterDecision(tool=response.get("tool", ""), arguments=response.get("arguments", {}))\<close>:
  \<open>.get\<close> exists on a dictionary only, and the model validates that \<open>tool\<close> is a string
  and \<open>arguments\<close> a dictionary.
\<close>

definition parse_decision :: "pyval \<Rightarrow> exn + tool_router_decision" where
  "parse_decision response =
     (case response of
        PDict r \<Rightarrow>
          (case (dict_get r ''tool'' (PStr []), dict_get r ''arguments'' (PDict [])) of
             (PStr t, PDict a) \<Rightarrow> Inr \<lparr>tool = t, arguments = a\<rparr>
           | _ \<Rightarrow> Inl (ValidationError ''ToolRouterDecision''))
      | _ \<Rightarrow> Inl (AttributeError ''object has no attribute get''))"

text \<open>
  \<open>_get_tool_decision(kernel, token, message, context)\<close>: a \<open>KernelException\<close> of the
  remote call leads to the fallback; any other exception of the call or of reading the
  reply makes the result \<open>None\<close>.
\<close>

definition get_tool_decision ::
  "'w kernel \<Rightarrow> string \<Rightarrow> string \<Rightarrow> pydict \<Rightarrow> 'w \<Rightarrow> (exn + tool_router_decision option) \<times> 'w" where
  "get_tool_decision kern token message context w =
     (case kern (Skill ''playground'' ''tool_router'') token
             (PDict [(''message'', PStr message),
                     (''context'', if context \<noteq> [] then PDict context else PNone)]) w of
        (Inr response, w1) \<Rightarrow>
          (case parse_decision response of
             Inr decision \<Rightarrow> (Inr (Some decision), w1)
           | Inl e \<Rightarrow> (Inr None, w1))
      | (Inl e, w1) \<Rightarrow>
          if is_kernel_exception e
          then (case fallback_tool_decision message context of
                  Inr decision \<Rightarrow> (Inr (Some decision), w1)
                | Inl e' \<Rightarrow> (Inl e', w1))
          else (Inr None, w1))"

text \<open>
  \<open>agent_endpoint\<close>, from the parsed request on: the routing step, then the execution
  with retry. An exception that escapes is turned into an error response.
\<close>

definition agent_endpoint ::
  "'w kernel \<Rightarrow> 'w executor \<Rightarrow> string \<Rightarrow> agent_request \<Rightarrow> 'w turn \<Rightarrow> agent_response \<times> 'w turn" where
  "agent_endpoint kern exec token req s =
     (let ctx = (case req_context req of None \<Rightarrow> [] | Some c \<Rightarrow> c) in
      case get_tool_decision kern token (req_message req) ctx (snd s) of
        (Inl e, w1) \<Rightarrow> (error_response (exn_str e) ''unknown'', (fst s, w1))
      | (Inr None, w1) \<Rightarrow> (error_response ''Could not determine tool'' ''unknown'', (fst s, w1))
      | (Inr (Some decision), w1) \<Rightarrow>
          execute_with_retry exec decision (req_message req) ctx (fst s, w1))"

section \<open>The sandboxed rendering pipeline (chart\_service.py)\<close>

text \<open>
  The pipeline acts on the file system, which is part of the world: a path is absent, a
  directory, or a file with its contents. The rest of the world (what the remote service
  and the random generator will answer next) is the field \<open>ext\<close>.
\<close>

datatype node = Dir | File string

record 'x world =
  fsys :: "string \<Rightarrow> node option"
  ext :: 'x

record completed_process =
  returncode :: int
  stdout :: string
  stderr :: string

text \<open>
  What the pipeline takes from the operating system and the Python library. The child
  process (\<open>subprocess.run(args, cwd, timeout)\<close>) returns a completed process or raises
  (\<open>TimeoutExpired\<close> when it is killed at the time limit) and may change the world in
  any way. \<open>mkdtemp\<close> names the directory \<open>tempfile.TemporaryDirectory()\<close> creates, or
  raises. \<open>write_failure\<close> says whether opening and writing a file raises. The two
  templates are the program texts that \<open>_create_data_preparation_code\<close> and
  \<open>_create_chart_execution_code\<close> fill in; only the child process reads them.
\<close>

record 'x sys =
  sys_executable :: string
  subprocess_run :: "string list \<Rightarrow> string \<Rightarrow> nat \<Rightarrow> 'x world \<Rightarrow> (exn + completed_process) \<times> 'x world"
  mkdtemp :: "'x world \<Rightarrow> exn + string"
  write_failure :: "string \<Rightarrow> 'x world \<Rightarrow> exn option"
  uuid4_hex :: "'x \<Rightarrow> string \<times> 'x"
  md5_hexdigest :: "string \<Rightarrow> string"
  py_str :: "pyval \<Rightarrow> string"
  b64encode :: "string \<Rightarrow> string"
  data_template :: "string \<Rightarrow> string \<Rightarrow> string"
  chart_template :: "string \<Rightarrow> string \<Rightarrow> string \<Rightarrow> string"

text \<open>\<open>_generate_unique_chart_id(query, headers, rows)\<close>.\<close>

definition generate_unique_chart_id ::
  "'x sys \<Rightarrow> pyval \<Rightarrow> pyval \<Rightarrow> pyval \<Rightarrow> 'x world \<Rightarrow> string \<times> 'x world" where
  "generate_unique_chart_id sys query headers rows w =
     (let query_hash =
            take 8 (md5_hexdigest sys
                      (py_str sys query @ ''_'' @ py_str sys headers @ ''_'' @ py_str sys rows))
      in case uuid4_hex sys (ext w) of
           (hex, x') \<Rightarrow> (''chart_'' @ query_hash @ ''_'' @ take 8 hex, w\<lparr>ext := x'\<rparr>))"

definition create_data_preparation_code :: "'x sys \<Rightarrow> pyval \<Rightarrow> pyval \<Rightarrow> string" where
  "create_data_preparation_code sys headers rows =
     data_template sys (py_str sys headers) (py_str sys rows)"

definition create_chart_execution_code :: "'x sys \<Rightarrow> string \<Rightarrow> string \<Rightarrow> string \<Rightarrow> string" where
  "create_chart_execution_code sys chart_code chart_uuid temp_dir =
     chart_template sys chart_code chart_uuid temp_dir"

text \<open>\<open>_execute_chart_generation(chart_file, temp_dir)\<close>: the child runs for at most 60 seconds.\<close>

definition execute_chart_generation ::
  "'x sys \<Rightarrow> string \<Rightarrow> string \<Rightarrow> 'x world \<Rightarrow> (exn + completed_process) \<times> 'x world" where
  "execute_chart_generation sys chart_file temp_dir w =
     subprocess_run sys [sys_executable sys, chart_file] temp_dir 60 w"

text \<open>
  Step 1 of \<open>_generate_chart_code\<close>: the chart type. Only a \<open>KernelException\<close> of the
  classifier is caught; \<open>.get\<close> on a reply that is no dictionary and \<open>.upper()\<close> on a
  type that is no string raise \<open>AttributeError\<close>, which is not caught here.
\<close>

definition classify_step ::
  "'w kernel \<Rightarrow> string \<Rightarrow> pyval \<Rightarrow> pyval \<Rightarrow> pyval \<Rightarrow> 'w \<Rightarrow> (exn + string) \<times> 'w" where
  "classify_step kern token query headers rows w =
     (case kern (Skill ''playground'' ''chart_classifier'') token
             (PDict [(''query'', query), (''headers'', headers), (''rows'', rows)]) w of
        (Inl e, w1) \<Rightarrow> if is_kernel_exception e then (Inr ''bar'', w1) else (Inl e, w1)
      | (Inr (PDict r), w1) \<Rightarrow>
          (let chart_type = dict_get r ''chart_type'' PNone;
               chart_type = (if \<not> truthy chart_type then PStr ''bar'' else chart_type)
           in case chart_type of
                PStr t \<Rightarrow> (Inr t, w1)
              | _ \<Rightarrow> (Inl (AttributeError ''object has no attribute upper''), w1))
      | (Inr _, w1) \<Rightarrow> (Inl (AttributeError ''object has no attribute get''), w1))"

text \<open>
  \<open>_generate_chart_code(kernel, token, query, headers, rows)\<close>: the chart type, then the
  code. A reply without code raises \<open>Exception("Failed to generate chart code")\<close>; a
  \<open>KernelException\<close> of the generator is replaced by
  \<open>Exception("Chart generation skill not available")\<close>.
\<close>

definition generate_chart_code ::
  "'w kernel \<Rightarrow> string \<Rightarrow> pyval \<Rightarrow> pyval \<Rightarrow> pyval \<Rightarrow> 'w \<Rightarrow> (exn + string) \<times> 'w" where
  "generate_chart_code kern token query headers rows w =
     (case py_len rows of
        Inl e \<Rightarrow> (Inl e, w)
      | Inr n \<Rightarrow>
          (case classify_step kern token query headers rows w of
             (Inl e, w1) \<Rightarrow> (Inl e, w1)
           | (Inr chart_type, w1) \<Rightarrow>
               (case kern (Skill ''playground'' ''chart_generator'') token
                       (PDict [(''chart_type'', PStr chart_type), (''query'', query),
                               (''headers'', headers), (''rows'', rows)]) w1 of
                  (Inl e, w2) \<Rightarrow>
                    if is_kernel_exception e
                    then (Inl (Exception ''Chart generation skill not available''), w2)
                    else (Inl e, w2)
                | (Inr (PDict r), w2) \<Rightarrow>
                    (let chart_code = dict_get r ''chart_code'' PNone in
                     if \<not> truthy chart_code
                     then (Inl (Exception ''Failed to generate chart code''), w2)
                     else (case chart_code of
                             PStr code \<Rightarrow> (Inr code, w2)
                           | _ \<Rightarrow> (Inl (AttributeError ''object has no attribute split''), w2)))
                | (Inr _, w2) \<Rightarrow> (Inl (AttributeError ''object has no attribute get''), w2))))"

text \<open>File system operations of the pipeline.\<close>

definition write_file ::
  "'x sys \<Rightarrow> string \<Rightarrow> string \<Rightarrow> 'x world \<Rightarrow> (exn + unit) \<times> 'x world" where
  "write_file sys path content w =
     (case write_failure sys path w of
        Some e \<Rightarrow> (Inl e, w)
      | None \<Rightarrow> (Inr (), w\<lparr>fsys := (fsys w)(path \<mapsto> File content)\<rparr>))"

definition read_bytes :: "'x world \<Rightarrow> string \<Rightarrow> exn + string" where
  "read_bytes w path =
     (case fsys w path of
        Some (File bytes) \<Rightarrow> Inr bytes
      | Some Dir \<Rightarrow> Inl (OtherError ''Is a directory'')
      | None \<Rightarrow> Inl (OtherError ''No such file or directory''))"

definition path_exists :: "'x world \<Rightarrow> string \<Rightarrow> bool" where
  "path_exists w path = (fsys w path \<noteq> None)"

text \<open>\<open>os.listdir(d)\<close> raises unless \<open>d\<close> is a directory; the listing only goes to the log.\<close>

definition listdir :: "'x world \<Rightarrow> string \<Rightarrow> exn + unit" where
  "listdir w d =
     (if fsys w d = Some Dir then Inr () else Inl (OtherError ''No such file or directory''))"

text \<open>Recursive deletion: the directory and every path below it.\<close>

definition rmtree :: "string \<Rightarrow> (string \<Rightarrow> node option) \<Rightarrow> (string \<Rightarrow> node option)" where
  "rmtree d fs = (\<lambda>p. if p = d \<or> prefix (d @ ''/'') p then None else fs p)"

text \<open>
  \<open>with tempfile.TemporaryDirectory() as temp_dir: body\<close>: the directory is created, the
  body runs, and the directory is deleted when the block is left, whether the body returns
  or raises.
\<close>

definition with_temporary_directory ::
  "'x sys \<Rightarrow> (string \<Rightarrow> 'x world \<Rightarrow> (exn + 'a) \<times> 'x world) \<Rightarrow> 'x world \<Rightarrow> (exn + 'a) \<times> 'x world" where
  "with_temporary_directory sys body w =
     (case mkdtemp sys w of
        Inl e \<Rightarrow> (Inl e, w)
      | Inr temp_dir \<Rightarrow>
          (case body temp_dir (w\<lparr>fsys := (fsys w)(temp_dir \<mapsto> Dir)\<rparr>) of
             (r, w') \<Rightarrow> (r, w'\<lparr>fsys := rmtree temp_dir (fsys w')\<rparr>)))"

text \<open>
  The \<open>try\<close> block of \<open>generate_chart_image\<close>: run the script, check the exit code, check
  that the image exists, read and encode it.
\<close>

definition run_chart_script_body ::
  "'x sys \<Rightarrow> string \<Rightarrow> string \<Rightarrow> string \<Rightarrow> 'x world \<Rightarrow> (exn + string) \<times> 'x world" where
  "run_chart_script_body sys chart_file output_image temp_dir w =
     (case execute_chart_generation sys chart_file temp_dir w of
        (Inl e, w1) \<Rightarrow> (Inl e, w1)
      | (Inr result, w1) \<Rightarrow>
          if returncode result \<noteq> 0
          then (Inl (Exception (''Chart generation failed: '' @ stderr result)), w1)
          else (case listdir w1 temp_dir of
                  Inl e \<Rightarrow> (Inl e, w1)
                | Inr u \<Rightarrow>
                    if \<not> path_exists w1 output_image
                    then (Inl (Exception ''Chart image was not generated''), w1)
                    else (case read_bytes w1 output_image of
                            Inl e \<Rightarrow> (Inl e, w1)
                          | Inr img_data \<Rightarrow> (Inr (b64encode sys img_data), w1))))"

text \<open>
  Its two \<open>except\<close> clauses: \<open>subprocess.TimeoutExpired\<close> first, then every other
  \<open>Exception\<close>, which includes the two the body raises itself.
\<close>

definition run_chart_script ::
  "'x sys \<Rightarrow> string \<Rightarrow> string \<Rightarrow> string \<Rightarrow> 'x world \<Rightarrow> (exn + string) \<times> 'x world" where
  "run_chart_script sys chart_file output_image temp_dir w =
     (case run_chart_script_body sys chart_file output_image temp_dir w of
        (Inr img_base64, w1) \<Rightarrow> (Inr img_base64, w1)
      | (Inl e, w1) \<Rightarrow>
          if is_timeout_expired e
          then (Inl (Exception ''Chart generation timed out''), w1)
          else (Inl (Exception (''Error executing chart code: '' @ exn_str e)), w1))"

text \<open>The body of the \<open>with\<close> block: write \<open>data.py\<close> and \<open>chart.py\<close>, then the \<open>try\<close> block.\<close>

definition render_in_workspace ::
  "'x sys \<Rightarrow> string \<Rightarrow> string \<Rightarrow> pyval \<Rightarrow> pyval \<Rightarrow> string \<Rightarrow> 'x world \<Rightarrow> (exn + string) \<times> 'x world" where
  "render_in_workspace sys chart_code chart_uuid headers rows temp_dir w =
     (let data_file = temp_dir @ ''/'' @ ''data.py'';
          chart_file = temp_dir @ ''/'' @ ''chart.py'';
          output_image = temp_dir @ ''/'' @ chart_uuid @ ''.png''
      in case write_file sys data_file (create_data_preparation_code sys headers rows) w of
           (Inl e, w1) \<Rightarrow> (Inl e, w1)
         | (Inr u, w1) \<Rightarrow>
             (case write_file sys chart_file
                     (create_chart_execution_code sys chart_code chart_uuid temp_dir) w1 of
                (Inl e, w2) \<Rightarrow> (Inl e, w2)
              | (Inr u', w2) \<Rightarrow> run_chart_script sys chart_file output_image temp_dir w2))"

text \<open>
  \<open>generate_chart_image(kernel, token, query, headers, rows)\<close>. The first log lines
  evaluate \<open>len(rows)\<close>, \<open>len(headers)\<close> and \<open>rows[:3] if rows else ...\<close>.
\<close>

definition generate_chart_image ::
  "'x sys \<Rightarrow> 'x world kernel \<Rightarrow> string \<Rightarrow> pyval \<Rightarrow> pyval \<Rightarrow> pyval \<Rightarrow> 'x world \<Rightarrow> (exn + string) \<times> 'x world" where
  "generate_chart_image sys kern token query headers rows w =
     (case py_len rows of
        Inl e \<Rightarrow> (Inl e, w)
      | Inr n \<Rightarrow>
     (case py_len headers of
        Inl e \<Rightarrow> (Inl e, w)
      | Inr m \<Rightarrow>
     (case (if truthy rows then py_slice3 rows else Inr rows) of
        Inl e \<Rightarrow> (Inl e, w)
      | Inr sample \<Rightarrow>
     (case generate_chart_code kern token query headers rows w of
        (Inl e, w1) \<Rightarrow> (Inl e, w1)
      | (Inr chart_code, w1) \<Rightarrow>
     (case generate_unique_chart_id sys query headers rows w1 of
        (chart_uuid, w2) \<Rightarrow>
          with_temporary_directory sys
            (render_in_workspace sys chart_code chart_uuid headers rows) w2)))))"

section \<open>The tools and the dispatcher (tools.py, mcp\_server.py)\<close>

text \<open>
  \<open>tool_classify_chart_type\<close>: the log line evaluates the two lengths before the
  \<open>try\<close>; inside it every exception is caught and reported as a result with
  \<open>success = False\<close> that also carries \<open>chart_type = "bar"\<close>.
\<close>

definition classify_failure :: "exn \<Rightarrow> pydict" where
  "classify_failure e =
     [(''success'', PBool False), (''error'', PStr (exn_str e)), (''chart_type'', PStr ''bar'')]"

definition tool_classify_chart_type ::
  "'w kernel \<Rightarrow> string \<Rightarrow> pyval \<Rightarrow> pyval \<Rightarrow> pyval \<Rightarrow> 'w \<Rightarrow> (exn + pydict) \<times> 'w" where
  "tool_classify_chart_type kern token query headers rows w =
     (case py_len rows of
        Inl e \<Rightarrow> (Inl e, w)
      | Inr n \<Rightarrow>
     (case py_len headers of
        Inl e \<Rightarrow> (Inl e, w)
      | Inr m \<Rightarrow>
     (case kern (Skill ''playground'' ''chart_classifier'') token
             (PDict [(''query'', query), (''headers'', headers), (''rows'', rows)]) w of
        (Inl e, w1) \<Rightarrow> (Inr (classify_failure e), w1)
      | (Inr (PDict r), w1) \<Rightarrow>
          (case dict_get r ''chart_type'' (PStr ''bar'') of
             PStr chart_type \<Rightarrow>
               (Inr [(''success'', PBool True), (''chart_type'', PStr chart_type),
                     (''rows_count'', PInt (int n)), (''headers'', headers)], w1)
           | _ \<Rightarrow>
               (Inr (classify_failure (AttributeError ''object has no attribute upper'')), w1))
      | (Inr _, w1) \<Rightarrow>
          (Inr (classify_failure (AttributeError ''object has no attribute get'')), w1))))"

text \<open>
  \<open>_run_classify_chart_type\<close>: a result without success is raised as an exception
  with the result's error text.
\<close>

definition run_classify_chart_type ::
  "'w kernel \<Rightarrow> string \<Rightarrow> pyval \<Rightarrow> pyval \<Rightarrow> pyval \<Rightarrow> 'w \<Rightarrow> (exn + pydict) \<times> 'w" where
  "run_classify_chart_type kern token query headers rows w =
     (case py_len rows of
        Inl e \<Rightarrow> (Inl e, w)
      | Inr n \<Rightarrow>
     (case tool_classify_chart_type kern token query headers rows w of
        (Inl e, w1) \<Rightarrow> (Inl e, w1)
      | (Inr result, w1) \<Rightarrow>
          (case dict_index result ''success'' of
             Inl e \<Rightarrow> (Inl e, w1)
           | Inr ok \<Rightarrow>
               if \<not> truthy ok
               then (Inl (exception_of
                            (dict_get result ''error'' (PStr ''Chart classification failed''))), w1)
               else (select_keys result [''chart_type'', ''headers'', ''rows_count''], w1))))"

text \<open>
  \<open>tool_generate_chart\<close> and \<open>_run_generate_chart\<close>. The size estimate is
  \<open>len(chart_base64) * 3 / 4 / 1024\<close>, that is \<open>3 * len * 2 ^ -12\<close>.
\<close>

definition tool_generate_chart ::
  "'x sys \<Rightarrow> 'x world kernel \<Rightarrow> string \<Rightarrow> pyval \<Rightarrow> pyval \<Rightarrow> pyval \<Rightarrow> 'x world \<Rightarrow> (exn + pydict) \<times> 'x world" where
  "tool_generate_chart sys kern token query headers rows w =
     (case py_len rows of
        Inl e \<Rightarrow> (Inl e, w)
      | Inr n \<Rightarrow>
     (case py_len headers of
        Inl e \<Rightarrow> (Inl e, w)
      | Inr m \<Rightarrow>
     (case generate_chart_image sys kern token query headers rows w of
        (Inl e, w1) \<Rightarrow> (Inr [(''success'', PBool False), (''error'', PStr (exn_str e))], w1)
      | (Inr chart_base64, w1) \<Rightarrow>
          (Inr [(''success'', PBool True), (''chart_image'', PStr chart_base64),
                (''image_size_kb'', PFloat (3 * int (length chart_base64)) (- 12)),
                (''rows_count'', PInt (int n))], w1))))"

definition run_generate_chart ::
  "'x sys \<Rightarrow> 'x world kernel \<Rightarrow> string \<Rightarrow> pyval \<Rightarrow> pyval \<Rightarrow> pyval \<Rightarrow> 'x world \<Rightarrow> (exn + pydict) \<times> 'x world" where
  "run_generate_chart sys kern token query headers rows w =
     (case py_len rows of
        Inl e \<Rightarrow> (Inl e, w)
      | Inr n \<Rightarrow>
     (case tool_generate_chart sys kern token query headers rows w of
        (Inl e, w1) \<Rightarrow> (Inl e, w1)
      | (Inr result, w1) \<Rightarrow>
          (case dict_index result ''success'' of
             Inl e \<Rightarrow> (Inl e, w1)
           | Inr ok \<Rightarrow>
               if \<not> truthy ok
               then (Inl (exception_of
                            (dict_get result ''error'' (PStr ''Chart generation failed''))), w1)
               else (select_keys result [''chart_image'', ''image_size_kb'', ''rows_count''], w1))))"

text \<open>
  \<open>execute_tool(tool_name, arguments)\<close>: an unknown name raises \<open>ValueError\<close>; a known
  tool is called as \<open>tool_impl(**arguments)\<close>, which raises \<open>TypeError\<close> when a key
  names no parameter (the message names the function and the first such key) or a
  required parameter is missing (the message names the function and the missing
  parameters). The four implementations are a record, so that a statement can hold for
  every behaviour of the tools.
\<close>

record 'w tool_impls =
  impl_generate_sql :: "pyval \<Rightarrow> pyval \<Rightarrow> 'w \<Rightarrow> (exn + pydict) \<times> 'w"
  impl_execute_sql :: "pyval \<Rightarrow> 'w \<Rightarrow> (exn + pydict) \<times> 'w"
  impl_classify_chart_type :: "pyval \<Rightarrow> pyval \<Rightarrow> pyval \<Rightarrow> 'w \<Rightarrow> (exn + pydict) \<times> 'w"
  impl_generate_chart :: "pyval \<Rightarrow> pyval \<Rightarrow> pyval \<Rightarrow> 'w \<Rightarrow> (exn + pydict) \<times> 'w"

fun missing_arguments_text :: "string list \<Rightarrow> string" where
  "missing_arguments_text [a] = ''1 required positional argument: '' @ quote a"
| "missing_arguments_text [a, b] =
     ''2 required positional arguments: '' @ quote a @ '' and '' @ quote b"
| "missing_arguments_text [a, b, c] =
     ''3 required positional arguments: '' @ quote a @ '', '' @ quote b @ '', and '' @ quote c"
| "missing_arguments_text names = ''required positional arguments''"

definition bind_arguments :: "string \<Rightarrow> string list \<Rightarrow> string list \<Rightarrow> pydict \<Rightarrow> exn + unit" where
  "bind_arguments fname required optional args =
     (case filter (\<lambda>k. k \<notin> set (required @ optional)) (map fst args) of
        k # ks \<Rightarrow>
          Inl (TypeError (fname @ ''() got an unexpected keyword argument '' @ quote k))
      | [] \<Rightarrow>
          (case filter (\<lambda>k. map_of args k = None) required of
             [] \<Rightarrow> Inr ()
           | missing \<Rightarrow>
               Inl (TypeError (fname @ ''() missing '' @ missing_arguments_text missing))))"

definition execute_tool :: "'w tool_impls \<Rightarrow> 'w executor" where
  "execute_tool impls tool_name args w =
     (if tool_name = ''generate_sql''
      then (case bind_arguments ''_run_generate_sql'' [''question''] [''error_feedback''] args of
              Inl e \<Rightarrow> (Inl e, w)
            | Inr u \<Rightarrow>
                impl_generate_sql impls (dict_get args ''question'' PNone)
                  (dict_get args ''error_feedback'' PNone) w)
      else if tool_name = ''execute_sql''
      then (case bind_arguments ''_run_execute_sql'' [''query''] [] args of
              Inl e \<Rightarrow> (Inl e, w)
            | Inr u \<Rightarrow> impl_execute_sql impls (dict_get args ''query'' PNone) w)
      else if tool_name = ''classify_chart_type''
      then (case bind_arguments ''_run_classify_chart_type'' [''query'', ''headers'', ''rows''] []
                   args of
              Inl e \<Rightarrow> (Inl e, w)
            | Inr u \<Rightarrow>
                impl_classify_chart_type impls (dict_get args ''query'' PNone)
                  (dict_get args ''headers'' PNone) (dict_get args ''rows'' PNone) w)
      else if tool_name = ''generate_chart''
      then (case bind_arguments ''_run_generate_chart'' [''query'', ''headers'', ''rows''] []
                   args of
              Inl e \<Rightarrow> (Inl e, w)
            | Inr u \<Rightarrow>
                impl_generate_chart impls (dict_get args ''query'' PNone)
                  (dict_get args ''headers'' PNone) (dict_get args ''rows'' PNone) w)
      else (Inl (ValueError (''Unknown tool: '' @ tool_name)), w))"

section \<open>The data preparation step (the program text in chart\_service.py)\<close>

text \<open>
  The body of the loop of the generated \<open>data.py\<close> over the columns of the data frame,
  for a column of text: its cells are strings or missing (\<open>None\<close>), its dtype is
  \<open>object\<close>.
  \<open>pd.to_numeric(errors='coerce')\<close> turns a cell into a number or into NaN; which strings
  read as numbers is the parameter \<open>parse\<close>. \<open>notna().sum() / len(df)\<close> divides the number
  of cells that became numbers by the number of rows of the table, and the quotient is
  compared with one half; the model computes it exactly, which agrees with the
  floating-point comparison for every table of fewer than \<open>2 ^ 52\<close> rows. Every
  column of a data frame has \<open>len(df)\<close> cells, so the length of the column stands
  for \<open>len(df)\<close>.
\<close>

datatype 'n column = TextColumn "string option list" | NumericColumn "'n list"

definition to_numeric :: "(string \<Rightarrow> 'n option) \<Rightarrow> string option list \<Rightarrow> 'n option list" where
  "to_numeric parse col = map (\<lambda>cell. case cell of None \<Rightarrow> None | Some s \<Rightarrow> parse s) col"

definition notna_sum :: "'n option list \<Rightarrow> nat" where
  "notna_sum series = length (filter (\<lambda>v. v \<noteq> None) series)"

definition isna_all :: "'n option list \<Rightarrow> bool" where
  "isna_all series = (\<not> list_ex (\<lambda>v. v \<noteq> None) series)"

definition fillna :: "'n \<Rightarrow> 'n option list \<Rightarrow> 'n list" where
  "fillna fill series = map (\<lambda>v. case v of None \<Rightarrow> fill | Some x \<Rightarrow> x) series"

definition clean_column :: "(string \<Rightarrow> 'n option) \<Rightarrow> 'n \<Rightarrow> string option list \<Rightarrow> 'n column" where
  "clean_column parse fill col =
     (let numeric_series = to_numeric parse col in
      if \<not> isna_all numeric_series
      then (if (of_nat (notna_sum numeric_series) :: rat) / of_nat (length col) > 1 / 2
            then NumericColumn (fillna fill numeric_series)
            else TextColumn col)
      else TextColumn col)"

text \<open>
  The data frame is its columns in order, each with its label; a column is text (dtype
  \<open>object\<close>) or numeric, and all columns have \<open>len(df)\<close> cells. The loop
  \<open>for col in df.columns\<close> reaches a column by its label: \<open>df[col]\<close> is that column
  when the label occurs once, and a data frame, which has no attribute \<open>dtype\<close>, when
  the label is repeated, so that \<open>df[col].dtype\<close> raises. A column that is converted
  is assigned back under its label.
\<close>

type_synonym 'n dataframe = "(string \<times> 'n column) list"

definition select_column :: "'n dataframe \<Rightarrow> string \<Rightarrow> exn + 'n column" where
  "select_column df col =
     (case filter (\<lambda>lc. fst lc = col) df of
        [] \<Rightarrow> Inl (KeyError (quote col))
      | [lc] \<Rightarrow> Inr (snd lc)
      | _ \<Rightarrow> Inl (AttributeError ''DataFrame object has no attribute dtype''))"

definition assign_column :: "'n dataframe \<Rightarrow> string \<Rightarrow> 'n column \<Rightarrow> 'n dataframe" where
  "assign_column df col c = map (\<lambda>lc. if fst lc = col then (col, c) else lc) df"

fun clean_loop ::
  "(string \<Rightarrow> 'n option) \<Rightarrow> 'n \<Rightarrow> string list \<Rightarrow> 'n dataframe \<Rightarrow> exn + 'n dataframe" where
  "clean_loop parse fill [] df = Inr df"
| "clean_loop parse fill (col # cols) df =
     (case select_column df col of
        Inl e \<Rightarrow> Inl e
      | Inr (NumericColumn xs) \<Rightarrow> clean_loop parse fill cols df
      | Inr (TextColumn cells) \<Rightarrow>
          (case clean_column parse fill cells of
             NumericColumn xs \<Rightarrow>
               clean_loop parse fill cols (assign_column df col (NumericColumn xs))
           | TextColumn kept \<Rightarrow> clean_loop parse fill cols df))"

definition prepare_data ::
  "(string \<Rightarrow> 'n option) \<Rightarrow> 'n \<Rightarrow> 'n dataframe \<Rightarrow> exn + 'n dataframe" where
  "prepare_data parse fill df = clean_loop parse fill (map fst df) df"

text \<open>A reading of decimal numerals, enough to run the examples of the specification.\<close>

definition digit_value :: "char \<Rightarrow> nat option" where
  "digit_value c =
     (let n = (of_char c :: nat) in if 48 \<le> n \<and> n \<le> 57 then Some (n - 48) else None)"

fun parse_digits :: "nat \<Rightarrow> string \<Rightarrow> nat option" where
  "parse_digits acc [] = Some acc"
| "parse_digits acc (c # cs) =
     (case digit_value c of None \<Rightarrow> None | Some d \<Rightarrow> parse_digits (10 * acc + d) cs)"

definition parse_decimal :: "string \<Rightarrow> int option" where
  "parse_decimal s = (if s = [] then None else map_option int (parse_digits 0 s))"

section \<open>Concrete collaborators for the examples\<close>

text \<open>
  An executor on which every SQL execution fails with a syntax error and every SQL
  generation succeeds; its state counts the calls.
\<close>

definition exec_syntax_errors :: "nat executor" where
  "exec_syntax_errors tool_name args n =
     (if tool_name = ''generate_sql''
      then (Inr [(''sql_query'', PStr ''SELEC 2'')], Suc n)
      else (Inl (Exception ''near SELEC: syntax error''), Suc n))"

text \<open>The same with an error text in capitals.\<close>

definition exec_capital_errors :: "nat executor" where
  "exec_capital_errors tool_name args n =
     (if tool_name = ''generate_sql''
      then (Inr [(''sql_query'', PStr ''SELEC 2'')], Suc n)
      else (Inl (Exception ''SYNTAX ERROR at 1''), Suc n))"

text \<open>A kernel that gives the same answer to every call.\<close>

definition scripted_kernel :: "exn + pyval \<Rightarrow> 'w kernel" where
  "scripted_kernel reply sk token input w = (reply, w)"

text \<open>Tool implementations of which only the chart classification is the service's own.\<close>

definition classify_only :: "'w kernel \<Rightarrow> string \<Rightarrow> 'w tool_impls" where
  "classify_only kern token =
     \<lparr>impl_generate_sql = (\<lambda>question feedback w. (Inl (Exception ''not used''), w)),
      impl_execute_sql = (\<lambda>query w. (Inl (Exception ''not used''), w)),
      impl_classify_chart_type = run_classify_chart_type kern token,
      impl_generate_chart = (\<lambda>query headers rows w. (Inl (Exception ''not used''), w))\<rparr>"

text \<open>
  An operating system for the examples. The chart script it writes consists of the name
  of the image alone, and a child process is one of five: it saves an image under the
  name its script holds, it saves nothing, it exits with code 1, it runs into the time
  limit, or it deletes its working directory and exits with code 0.
\<close>

datatype child = Saves | Saves_nothing | Crashes | Hangs | Removes_workspace

fun run_child ::
  "child \<Rightarrow> string list \<Rightarrow> string \<Rightarrow> nat \<Rightarrow> nat world \<Rightarrow> (exn + completed_process) \<times> nat world" where
  "run_child Saves args cwd limit w =
     (case args of
        [exe, script] \<Rightarrow>
          (case fsys w script of
             Some (File img_name) \<Rightarrow>
               (Inr \<lparr>returncode = 0, stdout = ''Chart saved'', stderr = []\<rparr>,
                w\<lparr>fsys := (fsys w)(cwd @ ''/'' @ img_name @ ''.png'' \<mapsto> File ''PNG'')\<rparr>)
           | _ \<Rightarrow> (Inr \<lparr>returncode = 2, stdout = [], stderr = ''No such file''\<rparr>, w))
      | _ \<Rightarrow> (Inr \<lparr>returncode = 2, stdout = [], stderr = ''usage''\<rparr>, w))"
| "run_child Saves_nothing args cwd limit w =
     (Inr \<lparr>returncode = 0, stdout = [], stderr = []\<rparr>, w)"
| "run_child Crashes args cwd limit w =
     (Inr \<lparr>returncode = 1, stdout = [], stderr = ''NameError''\<rparr>, w)"
| "run_child Hangs args cwd limit w =
     (Inl (TimeoutExpired ''timed out after 60 seconds''), w)"
| "run_child Removes_workspace args cwd limit w =
     (Inr \<lparr>returncode = 0, stdout = [], stderr = []\<rparr>, w\<lparr>fsys := rmtree cwd (fsys w)\<rparr>)"

definition example_sys :: "child \<Rightarrow> nat sys" where
  "example_sys c =
     \<lparr>sys_executable = ''python3'',
      subprocess_run = run_child c,
      mkdtemp = (\<lambda>w. Inr ''/tmp/tmpa1b2''),
      write_failure = (\<lambda>path w. None),
      uuid4_hex = (\<lambda>n. (''0f1e2d3c4b5a6978'', Suc n)),
      md5_hexdigest = (\<lambda>s. ''9a8b7c6d5e4f3021''),
      py_str = (\<lambda>v. ''v''),
      b64encode = (\<lambda>bytes. bytes),
      data_template = (\<lambda>headers rows. headers @ rows),
      chart_template = (\<lambda>chart_code chart_uuid temp_dir. chart_uuid)\<rparr>"

definition empty_world :: "nat world" where
  "empty_world = \<lparr>fsys = (\<lambda>path. None), ext = 0\<rparr>"


section \<open>Properties of the fallback router\<close>

lemma dict_index_get:
  "truthy (dict_get d k PNone) \<Longrightarrow> dict_index d k = Inr (dict_get d k PNone)"
  by (cases "map_of d k") (simp_all add: dict_get_def dict_index_def)

text \<open>
  Claim C3, as amended. The fallback router always returns a decision, and it chooses by
  the truth value of \<open>context.get("query")\<close> and \<open>context.get("headers")\<close>, not by the
  presence of the keys: a true query with no true headers gives \<open>execute_sql\<close> with that
  query; true headers give \<open>generate_chart\<close> with those headers, the rows defaulting to
  the empty list and the query to the empty string when the key is missing; everything
  else gives \<open>generate_sql\<close> with the message as the question.
\<close>

theorem fallback_routing_rules:
  "(\<exists>d. fallback_tool_decision message ctx = Inr d) \<and>
   (truthy (dict_get ctx ''query'' PNone) \<and> \<not> truthy (dict_get ctx ''headers'' PNone) \<longrightarrow>
      fallback_tool_decision message ctx =
        Inr \<lparr>tool = ''execute_sql'', arguments = [(''query'', dict_get ctx ''query'' PNone)]\<rparr>) \<and>
   (truthy (dict_get ctx ''headers'' PNone) \<longrightarrow>
      fallback_tool_decision message ctx =
        Inr \<lparr>tool = ''generate_chart'',
             arguments = [(''query'', dict_get ctx ''query'' (PStr [])),
                          (''headers'', dict_get ctx ''headers'' PNone),
                          (''rows'', dict_get ctx ''rows'' (PList []))]\<rparr>) \<and>
   (\<not> truthy (dict_get ctx ''query'' PNone) \<and> \<not> truthy (dict_get ctx ''headers'' PNone) \<longrightarrow>
      fallback_tool_decision message ctx =
        Inr \<lparr>tool = ''generate_sql'', arguments = [(''question'', PStr message)]\<rparr>)"
  by (simp add: fallback_tool_decision_def dict_index_get)

theorem fallback_routing_rules_witness:
  "fallback_tool_decision ''run it'' [(''query'', PStr ''SELECT 1'')] =
     Inr \<lparr>tool = ''execute_sql'', arguments = [(''query'', PStr ''SELECT 1'')]\<rparr> \<and>
   fallback_tool_decision ''plot it'' [(''headers'', PList [PStr ''n'']), (''rows'', PList [PList [PInt 1]])] =
     Inr \<lparr>tool = ''generate_chart'',
          arguments = [(''query'', PStr []), (''headers'', PList [PStr ''n'']),
                       (''rows'', PList [PList [PInt 1]])]\<rparr> \<and>
   fallback_tool_decision ''How many customers per country?'' [] =
     Inr \<lparr>tool = ''generate_sql'',
          arguments = [(''question'', PStr ''How many customers per country?'')]\<rparr>"
  using fallback_routing_rules [where ctx = "[(''query'', PStr ''SELECT 1'')]" and message = "''run it''"]
        fallback_routing_rules [where ctx = "[(''headers'', PList [PStr ''n'']), (''rows'', PList [PList [PInt 1]])]" and message = "''plot it''"]
        fallback_routing_rules [where ctx = "[]" and message = "''How many customers per country?''"]
  by (simp add: dict_get_def)

text \<open>
  The claim as stated, with presence of the key: a context whose query is the empty
  string has the key \<open>query\<close> and lacks the key \<open>headers\<close>, and is not routed to
  \<open>execute_sql\<close>.
\<close>

theorem fallback_presence_counterexample:
  "map_of [(''query'', PStr [])] ''query'' = Some (PStr []) \<and>
   map_of [(''query'', PStr [])] ''headers'' = None \<and>
   fallback_tool_decision ''hello'' [(''query'', PStr [])] =
     Inr \<lparr>tool = ''generate_sql'', arguments = [(''question'', PStr ''hello'')]\<rparr> \<and>
   fallback_tool_decision ''hello'' [(''query'', PStr [])] \<noteq>
     Inr \<lparr>tool = ''execute_sql'', arguments = [(''query'', PStr [])]\<rparr>"
  by (simp add: fallback_tool_decision_def dict_get_def dict_index_def)

text \<open>
  Claim C10. The fallback router tests truth values: a context whose query is the empty
  string (and whose headers are not true) is routed to \<open>generate_sql\<close>, and a context
  with a true query and the empty list as headers is routed to \<open>execute_sql\<close>.
\<close>

theorem fallback_truthiness:
  "(map_of ctx ''query'' = Some (PStr []) \<and> \<not> truthy (dict_get ctx ''headers'' PNone) \<longrightarrow>
      fallback_tool_decision message ctx =
        Inr \<lparr>tool = ''generate_sql'', arguments = [(''question'', PStr message)]\<rparr>) \<and>
   (map_of ctx ''query'' = Some q \<and> truthy q \<and> map_of ctx ''headers'' = Some (PList []) \<longrightarrow>
      fallback_tool_decision message ctx =
        Inr \<lparr>tool = ''execute_sql'', arguments = [(''query'', q)]\<rparr>)"
  by (auto simp add: fallback_tool_decision_def dict_get_def dict_index_def)

theorem fallback_truthiness_witness:
  "fallback_tool_decision ''show sales'' [(''query'', PStr [])] =
     Inr \<lparr>tool = ''generate_sql'', arguments = [(''question'', PStr ''show sales'')]\<rparr> \<and>
   fallback_tool_decision ''run it'' [(''query'', PStr ''SELECT 1''), (''headers'', PList [])] =
     Inr \<lparr>tool = ''execute_sql'', arguments = [(''query'', PStr ''SELECT 1'')]\<rparr>"
  using fallback_truthiness [where ctx = "[(''query'', PStr [])]" and message = "''show sales''"]
        fallback_truthiness [where ctx = "[(''query'', PStr ''SELECT 1''), (''headers'', PList [])]" and q = "PStr ''SELECT 1''" and message = "''run it''"]
  by (simp add: dict_get_def)

section \<open>Properties of the retry policy\<close>

lemma ex_fixable: "is_fixable_sql_error ''near SELEC: syntax error''"
  by code_simp

lemma ex_capital_fixable: "is_fixable_sql_error ''SYNTAX ERROR at 1''"
  by code_simp

lemma ex_capital_contains: "contains_ignoring_case ''SYNTAX ERROR at 1'' ''syntax error''"
  by code_simp

text \<open>
  Claim C1. In a turn whose \<open>execute_sql\<close> call fails with a fixable error, the calls that
  follow are one \<open>generate_sql\<close> call and at most one further \<open>execute_sql\<close> call,
  and nothing else. A response without success is the failed response: its type is
  \<open>ERROR\<close>, its data is the original error text under \<open>error\<close>, its tool is
  \<open>execute_sql\<close> and its success flag is false. When the retry's \<open>generate_sql\<close>
  fails, or the corrected \<open>execute_sql\<close> fails (whatever its error, fixable or not), the
  turn ends there with that failed response. When both succeed, the response carries the
  payload of the corrected execution.
\<close>

theorem retry_cap:
  assumes "tool decision = ''execute_sql''"
    and "exec ''execute_sql'' (arguments decision) w = (Inl e, w1)"
    and "is_fixable_sql_error (exn_str e)"
    and "execute_with_retry exec decision message ctx (calls, w) = (resp, (calls', w'))"
    and "gen_args = [(''question'', dict_get ctx ''original_question'' (PStr message)),
                     (''error_feedback'', PStr (exn_str e))]"
    and "failed = \<lparr>response_type = ERROR, data = [(''error'', PStr (exn_str e))],
                   tool_used = ''execute_sql'', success = False\<rparr>"
  shows "(\<exists>retry_calls.
            calls' = calls @ (''execute_sql'', arguments decision) # retry_calls \<and>
            length (filter (\<lambda>c. fst c = ''generate_sql'') retry_calls) = 1 \<and>
            length (filter (\<lambda>c. fst c = ''execute_sql'') retry_calls) \<le> 1 \<and>
            length retry_calls \<le> 2) \<and>
         (\<not> success resp \<longrightarrow> resp = failed) \<and>
         (\<forall>e2 w2. exec ''generate_sql'' gen_args w1 = (Inl e2, w2) \<longrightarrow>
            resp = failed \<and>
            calls' = calls @ [(''execute_sql'', arguments decision), (''generate_sql'', gen_args)]) \<and>
         (\<forall>corrected w2 q e3 w3.
            exec ''generate_sql'' gen_args w1 = (Inr corrected, w2) \<and>
            dict_index corrected ''sql_query'' = Inr q \<and>
            exec ''execute_sql'' [(''query'', q)] w2 = (Inl e3, w3) \<longrightarrow>
            resp = failed \<and>
            calls' = calls @ [(''execute_sql'', arguments decision), (''generate_sql'', gen_args),
                              (''execute_sql'', [(''query'', q)])]) \<and>
         (\<forall>corrected w2 q payload w3.
            exec ''generate_sql'' gen_args w1 = (Inr corrected, w2) \<and>
            dict_index corrected ''sql_query'' = Inr q \<and>
            exec ''execute_sql'' [(''query'', q)] w2 = (Inr payload, w3) \<longrightarrow>
            resp = \<lparr>response_type = QUERY_RESULTS, data = payload,
                    tool_used = ''execute_sql'', success = True\<rparr> \<and>
            calls' = calls @ [(''execute_sql'', arguments decision), (''generate_sql'', gen_args),
                              (''execute_sql'', [(''query'', q)])])"
proof -
  have run: "(case retry_sql_with_correction exec (exn_str e) message ctx
              (calls @ [(''execute_sql'', arguments decision)], w1) of
         (Some retry_response, s2) \<Rightarrow> (retry_response, s2)
       | (None, s2) \<Rightarrow> (failed, s2)) = (resp, (calls', w'))"
    using assms(2-4)
    unfolding assms(6) execute_with_retry_def call_tool_def error_response_def Let_def assms(1)
    by simp
  obtain r2 w2 where gen: "exec ''generate_sql'' gen_args w1 = (r2, w2)"
    by (metis surj_pair)
  show ?thesis
  proof (cases r2)
    case (Inl e2)
    with run gen assms(5) show ?thesis
      by (auto simp add: retry_sql_with_correction_def call_tool_def)
  next
    case (Inr corrected)
    show ?thesis
    proof (cases "dict_index corrected ''sql_query''")
      case (Inl e3)
      with run gen Inr assms(5) show ?thesis
        by (auto simp add: retry_sql_with_correction_def call_tool_def)
    next
      case q: (Inr q)
      obtain r3 w3 where ex: "exec ''execute_sql'' [(''query'', q)] w2 = (r3, w3)"
        by (metis surj_pair)
      show ?thesis
      proof (cases r3)
        case (Inl e3)
        with run gen Inr q ex assms(5,6) show ?thesis
          by (auto simp add: retry_sql_with_correction_def call_tool_def)
      next
        case payload: (Inr payload)
        with run gen Inr q ex assms(5,6) show ?thesis
          by (auto simp add: retry_sql_with_correction_def call_tool_def)
      qed
    qed
  qed
qed


theorem retry_cap_witness:
  "execute_with_retry exec_syntax_errors
     \<lparr>tool = ''execute_sql'', arguments = [(''query'', PStr ''SELEC 1'')]\<rparr> ''run it'' [] ([], 0) =
     (\<lparr>response_type = ERROR, data = [(''error'', PStr ''near SELEC: syntax error'')],
       tool_used = ''execute_sql'', success = False\<rparr>,
      ([(''execute_sql'', [(''query'', PStr ''SELEC 1'')]),
        (''generate_sql'', [(''question'', PStr ''run it''),
                            (''error_feedback'', PStr ''near SELEC: syntax error'')]),
        (''execute_sql'', [(''query'', PStr ''SELEC 2'')])], 3))"
proof -
  let ?d = "\<lparr>tool = ''execute_sql'', arguments = [(''query'', PStr ''SELEC 1'')]\<rparr>"
  let ?g = "[(''question'', dict_get [] ''original_question'' (PStr ''run it'')),
             (''error_feedback'', PStr (exn_str (Exception ''near SELEC: syntax error'')))]"
  obtain resp calls' w' where run:
    "execute_with_retry exec_syntax_errors ?d ''run it'' [] ([], 0) = (resp, (calls', w'))"
    by (metis surj_pair)
  have h1: "tool ?d = ''execute_sql''" by simp
  have h2: "exec_syntax_errors ''execute_sql'' (arguments ?d) 0 =
              (Inl (Exception ''near SELEC: syntax error''), 1)"
    by (simp add: exec_syntax_errors_def)
  have h3: "is_fixable_sql_error (exn_str (Exception ''near SELEC: syntax error''))"
    using ex_fixable by simp
  have g: "exec_syntax_errors ''generate_sql'' ?g 1 = (Inr [(''sql_query'', PStr ''SELEC 2'')], 2)"
    by (simp add: exec_syntax_errors_def)
  have x: "exec_syntax_errors ''execute_sql'' [(''query'', PStr ''SELEC 2'')] 2 =
             (Inl (Exception ''near SELEC: syntax error''), 3)"
    by (simp add: exec_syntax_errors_def)
  have q: "dict_index [(''sql_query'', PStr ''SELEC 2'')] ''sql_query'' = Inr (PStr ''SELEC 2'')"
    by (simp add: dict_index_def)
  note failed_retry =
    retry_cap [OF h1 h2 h3 run refl refl, THEN conjunct2, THEN conjunct2, THEN conjunct2,
      THEN conjunct1, rule_format, OF conjI [OF g conjI [OF q x]]]
  from failed_retry
  have "resp = \<lparr>response_type = ERROR, data = [(''error'', PStr ''near SELEC: syntax error'')],
                 tool_used = ''execute_sql'', success = False\<rparr> \<and>
        calls' = [(''execute_sql'', [(''query'', PStr ''SELEC 1'')]), (''generate_sql'', ?g),
                  (''execute_sql'', [(''query'', PStr ''SELEC 2'')])]"
    by simp
  moreover have "w' = 3"
    using run
    by (simp add: execute_with_retry_def retry_sql_with_correction_def call_tool_def
          exec_syntax_errors_def dict_index_def ex_fixable Let_def numeral_3_eq_3)
  ultimately show ?thesis using run by (simp add: dict_get_def)
qed

text \<open>
  \<open>lower\<close> and the letter-by-letter comparison agree: a keyword occurs in the
  lower-cased text exactly when it occurs in the text without regard to case. The four
  keywords are in small letters.
\<close>

lemma of_char_lower_char:
  "(of_char (lower_char c) :: nat) = (if is_ascii_upper c then of_char c + 32 else of_char c)"
  by (simp add: lower_char_def is_ascii_upper_def Let_def)

lemma same_letter_iff: "same_letter a b \<longleftrightarrow> lower_char a = lower_char b"
proof -
  have "lower_char a = lower_char b \<longleftrightarrow>
          (of_char (lower_char a) :: nat) = of_char (lower_char b)"
    by simp
  also have "\<dots> \<longleftrightarrow> same_letter a b"
  proof -
    have eq: "a = b \<longleftrightarrow> (of_char a :: nat) = of_char b" by simp
    show ?thesis
      unfolding of_char_lower_char same_letter_def eq is_ascii_upper_def by auto
  qed
  finally show ?thesis by simp
qed

lemma starts_with_ignoring_case_iff:
  "starts_with_ignoring_case s k \<longleftrightarrow> prefix (lower k) (lower s)"
  by (induction s k rule: starts_with_ignoring_case.induct)
     (auto simp add: lower_def same_letter_iff)

lemma contains_ignoring_case_iff:
  "contains_ignoring_case s k \<longleftrightarrow> sublist (lower k) (lower s)"
proof (induction s)
  case Nil
  then show ?case by (simp add: lower_def)
next
  case (Cons c cs)
  have "sublist (lower k) (lower (c # cs)) \<longleftrightarrow>
          prefix (lower k) (lower (c # cs)) \<or> sublist (lower k) (lower cs)"
    by (simp add: lower_def sublist_Cons_right)
  with Cons show ?case
    by (simp add: starts_with_ignoring_case_iff)
qed

lemma keywords_lower:
  "lower ''no such function'' = ''no such function''"
  "lower ''syntax error'' = ''syntax error''"
  "lower ''no such column'' = ''no such column''"
  "lower ''near'' = ''near''"
  by code_simp+

lemma is_fixable_sql_error_iff:
  "is_fixable_sql_error error \<longleftrightarrow>
     contains_ignoring_case error ''no such function'' \<or>
     contains_ignoring_case error ''syntax error'' \<or>
     contains_ignoring_case error ''no such column'' \<or>
     contains_ignoring_case error ''near''"
  by (simp add: is_fixable_sql_error_def fixable_errors_def contains_ignoring_case_iff
        keywords_lower)

text \<open>
  Claim C2. The error is fixable exactly when its text contains, without regard to letter
  case, one of the four keywords. After a failed tool call, a retry (a \<open>generate_sql\<close>
  call) follows exactly when the tool is \<open>execute_sql\<close> and the error is fixable; its
  question is \<open>original_question\<close> of the context when that key is present and the
  message otherwise, its feedback is the error text. In every other case the failed call
  is the only call and the response is the failed response for that tool: type
  \<open>ERROR\<close>, the error text as data, success false.
\<close>

theorem retry_trigger:
  assumes "exec (tool decision) (arguments decision) w = (Inl e, w1)"
    and "execute_with_retry exec decision message ctx (calls, w) = (resp, (calls', w'))"
  shows "(is_fixable_sql_error (exn_str e) \<longleftrightarrow>
            contains_ignoring_case (exn_str e) ''no such function'' \<or>
            contains_ignoring_case (exn_str e) ''syntax error'' \<or>
            contains_ignoring_case (exn_str e) ''no such column'' \<or>
            contains_ignoring_case (exn_str e) ''near'') \<and>
         (tool decision = ''execute_sql'' \<and> is_fixable_sql_error (exn_str e) \<longleftrightarrow>
            (\<exists>rest. calls' = calls @ (tool decision, arguments decision) #
               (''generate_sql'',
                [(''question'', case map_of ctx ''original_question'' of
                                  Some v \<Rightarrow> v | None \<Rightarrow> PStr message),
                 (''error_feedback'', PStr (exn_str e))]) # rest)) \<and>
         (\<not> (tool decision = ''execute_sql'' \<and> is_fixable_sql_error (exn_str e)) \<longrightarrow>
            calls' = calls @ [(tool decision, arguments decision)] \<and>
            resp = \<lparr>response_type = ERROR, data = [(''error'', PStr (exn_str e))],
                    tool_used = tool decision, success = False\<rparr>)"
proof (intro conjI)
  show "is_fixable_sql_error (exn_str e) \<longleftrightarrow>
            contains_ignoring_case (exn_str e) ''no such function'' \<or>
            contains_ignoring_case (exn_str e) ''syntax error'' \<or>
            contains_ignoring_case (exn_str e) ''no such column'' \<or>
            contains_ignoring_case (exn_str e) ''near''"
    by (rule is_fixable_sql_error_iff)
next
  show "tool decision = ''execute_sql'' \<and> is_fixable_sql_error (exn_str e) \<longleftrightarrow>
            (\<exists>rest. calls' = calls @ (tool decision, arguments decision) #
               (''generate_sql'',
                [(''question'', case map_of ctx ''original_question'' of
                                  Some v \<Rightarrow> v | None \<Rightarrow> PStr message),
                 (''error_feedback'', PStr (exn_str e))]) # rest)"
    using assms
    by (auto simp add: execute_with_retry_def retry_sql_with_correction_def call_tool_def Let_def
          dict_get_def split: prod.splits sum.splits option.splits if_splits)
next
  show "\<not> (tool decision = ''execute_sql'' \<and> is_fixable_sql_error (exn_str e)) \<longrightarrow>
            calls' = calls @ [(tool decision, arguments decision)] \<and>
            resp = \<lparr>response_type = ERROR, data = [(''error'', PStr (exn_str e))],
                    tool_used = tool decision, success = False\<rparr>"
    using assms
    by (auto simp add: execute_with_retry_def call_tool_def Let_def error_response_def
          split: prod.splits sum.splits option.splits if_splits)
qed

theorem retry_trigger_witness:
  "execute_with_retry exec_capital_errors
     \<lparr>tool = ''execute_sql'', arguments = [(''query'', PStr ''SELEC 1'')]\<rparr> ''run this query''
     [(''original_question'', PStr ''How many customers?'')] ([], 0) =
     (\<lparr>response_type = ERROR, data = [(''error'', PStr ''SYNTAX ERROR at 1'')],
       tool_used = ''execute_sql'', success = False\<rparr>,
      ([(''execute_sql'', [(''query'', PStr ''SELEC 1'')]),
        (''generate_sql'', [(''question'', PStr ''How many customers?''),
                            (''error_feedback'', PStr ''SYNTAX ERROR at 1'')]),
        (''execute_sql'', [(''query'', PStr ''SELEC 2'')])], 3)) \<and>
   contains_ignoring_case ''SYNTAX ERROR at 1'' ''syntax error'' \<and>
   execute_with_retry exec_syntax_errors
     \<lparr>tool = ''generate_chart'', arguments = []\<rparr> ''plot it'' [] ([], 0) =
     (\<lparr>response_type = ERROR, data = [(''error'', PStr ''near SELEC: syntax error'')],
       tool_used = ''generate_chart'', success = False\<rparr>,
      ([(''generate_chart'', [])], 1))"
proof -
  let ?d1 = "\<lparr>tool = ''execute_sql'', arguments = [(''query'', PStr ''SELEC 1'')]\<rparr>"
  let ?d2 = "\<lparr>tool = ''generate_chart'', arguments = []\<rparr>"
  let ?e1 = "Exception ''SYNTAX ERROR at 1''"
  let ?e2 = "Exception ''near SELEC: syntax error''"
  have h1: "exec_capital_errors (tool ?d1) (arguments ?d1) 0 = (Inl ?e1, 1)"
    by (simp add: exec_capital_errors_def)
  have h2: "exec_syntax_errors (tool ?d2) (arguments ?d2) 0 = (Inl ?e2, 1)"
    by (simp add: exec_syntax_errors_def)
  have run1: "execute_with_retry exec_capital_errors ?d1 ''run this query''
                [(''original_question'', PStr ''How many customers?'')] ([], 0) =
              (\<lparr>response_type = ERROR, data = [(''error'', PStr ''SYNTAX ERROR at 1'')],
                tool_used = ''execute_sql'', success = False\<rparr>,
               ([(''execute_sql'', [(''query'', PStr ''SELEC 1'')]),
                 (''generate_sql'', [(''question'', PStr ''How many customers?''),
                            (''error_feedback'', PStr ''SYNTAX ERROR at 1'')]),
                 (''execute_sql'', [(''query'', PStr ''SELEC 2'')])], 3))"
    by (simp add: execute_with_retry_def retry_sql_with_correction_def call_tool_def
          exec_capital_errors_def dict_index_def dict_get_def ex_capital_fixable Let_def
          numeral_3_eq_3 error_response_def)
  have run2: "execute_with_retry exec_syntax_errors ?d2 ''plot it'' [] ([], 0) =
              (\<lparr>response_type = ERROR, data = [(''error'', PStr ''near SELEC: syntax error'')],
                tool_used = ''generate_chart'', success = False\<rparr>,
               ([(''generate_chart'', [])], 1))"
    by (simp add: execute_with_retry_def call_tool_def exec_syntax_errors_def Let_def
          error_response_def)
  show ?thesis
    using retry_trigger [OF h1 run1] retry_trigger [OF h2 run2]
    by (intro conjI) (rule run1, rule ex_capital_contains, rule run2)
qed

section \<open>Properties of the routing step\<close>

lemma fallback_total: "\<exists>d. fallback_tool_decision message ctx = Inr d"
  by (simp add: fallback_tool_decision_def dict_index_get)

text \<open>
  Claim C4, as amended. When the remote \<open>tool_router\<close> call raises a
  \<open>KernelException\<close> (the service answered with an HTTP status of 400 or more), the
  routing step falls back to the local rule, a decision always results, and the endpoint
  goes on to execute it. When the call raises any other exception (a transport error),
  or its reply cannot be read as a decision, the routing step returns no decision and the
  endpoint answers with the failed response: its type is \<open>ERROR\<close>, its data is the
  text \<open>Could not determine tool\<close> under \<open>error\<close>, its tool is
  \<open>unknown\<close> and its success flag is false. No tool is called.
\<close>

theorem routing_failure_recovery:
  assumes "kern (Skill ''playground'' ''tool_router'') token
             (PDict [(''message'', PStr (req_message req)),
                     (''context'', if ctx \<noteq> [] then PDict ctx else PNone)]) w = (reply, w1)"
    and "ctx = (case req_context req of None \<Rightarrow> [] | Some c \<Rightarrow> c)"
  shows "((\<exists>e. reply = Inl e \<and> is_kernel_exception e) \<longrightarrow>
            (\<exists>d. fallback_tool_decision (req_message req) ctx = Inr d \<and>
                 get_tool_decision kern token (req_message req) ctx w = (Inr (Some d), w1) \<and>
                 agent_endpoint kern exec token req (calls, w) =
                   execute_with_retry exec d (req_message req) ctx (calls, w1))) \<and>
         ((\<exists>e. reply = Inl e \<and> \<not> is_kernel_exception e) \<or>
          (\<exists>response e. reply = Inr response \<and> parse_decision response = Inl e) \<longrightarrow>
            get_tool_decision kern token (req_message req) ctx w = (Inr None, w1) \<and>
            agent_endpoint kern exec token req (calls, w) =
              (\<lparr>response_type = ERROR, data = [(''error'', PStr ''Could not determine tool'')],
               tool_used = ''unknown'', success = False\<rparr>, (calls, w1)))"
proof -
  obtain d where d: "fallback_tool_decision (req_message req) ctx = Inr d"
    using fallback_total by blast
  show ?thesis
    using assms d
    by (auto simp add: get_tool_decision_def agent_endpoint_def Let_def error_response_def
          split: sum.splits option.splits)
qed

theorem routing_failure_recovery_witness:
  "agent_endpoint (scripted_kernel (Inl (KernelException 503 ''Service Unavailable'')))
     exec_syntax_errors ''token''
     \<lparr>req_message = ''How many customers?'', req_context = None\<rparr> ([], 0) =
     (\<lparr>response_type = SQL_QUERY, data = [(''sql_query'', PStr ''SELEC 2'')],
       tool_used = ''generate_sql'', success = True\<rparr>,
      ([(''generate_sql'', [(''question'', PStr ''How many customers?'')])], 1)) \<and>
   agent_endpoint (scripted_kernel (Inl (OtherError ''connection refused'')))
     exec_syntax_errors ''token''
     \<lparr>req_message = ''How many customers?'', req_context = None\<rparr> ([], 0) =
     (\<lparr>response_type = ERROR, data = [(''error'', PStr ''Could not determine tool'')],
               tool_used = ''unknown'', success = False\<rparr>, ([], 0))"
proof -
  let ?req = "\<lparr>req_message = ''How many customers?'', req_context = None\<rparr>"
  let ?inp = "PDict [(''message'', PStr (req_message ?req)),
                     (''context'', if ([]::pydict) \<noteq> [] then PDict [] else PNone)]"
  have k1: "scripted_kernel (Inl (KernelException 503 ''Service Unavailable''))
              (Skill ''playground'' ''tool_router'') ''token'' ?inp (0::nat) =
            (Inl (KernelException 503 ''Service Unavailable''), 0)"
    by (simp add: scripted_kernel_def)
  have k2: "scripted_kernel (Inl (OtherError ''connection refused''))
              (Skill ''playground'' ''tool_router'') ''token'' ?inp (0::nat) =
            (Inl (OtherError ''connection refused''), 0)"
    by (simp add: scripted_kernel_def)
  have c: "([]::pydict) = (case req_context ?req of None \<Rightarrow> [] | Some c \<Rightarrow> c)"
    by simp
  show ?thesis
    using routing_failure_recovery
            [where kern = "scripted_kernel (Inl (KernelException 503 ''Service Unavailable''))"
               and token = "''token''" and req = ?req and ctx = "[]" and w = "0::nat"
               and reply = "Inl (KernelException 503 ''Service Unavailable'')" and ?w1.0 = 0
               and exec = exec_syntax_errors and calls = "[]", OF k1 c]
          routing_failure_recovery
            [where kern = "scripted_kernel (Inl (OtherError ''connection refused''))"
               and token = "''token''" and req = ?req and ctx = "[]" and w = "0::nat"
               and reply = "Inl (OtherError ''connection refused'')" and ?w1.0 = 0
               and exec = exec_syntax_errors and calls = "[]", OF k2 c]
    by (simp add: fallback_tool_decision_def dict_get_def execute_with_retry_def call_tool_def
          exec_syntax_errors_def response_types_def error_response_def)
qed

text \<open>
  The claim as stated fails on a transport error and on an unparseable reply: both are
  surfaced to the caller as an error response, and no tool is executed.
\<close>

theorem routing_failure_surfaced_counterexample:
  "agent_endpoint (scripted_kernel (Inl (OtherError ''connection refused'')))
     exec_syntax_errors ''token''
     \<lparr>req_message = ''How many customers?'', req_context = None\<rparr> ([], 0) =
     (\<lparr>response_type = ERROR, data = [(''error'', PStr ''Could not determine tool'')],
               tool_used = ''unknown'', success = False\<rparr>, ([], 0)) \<and>
   agent_endpoint (scripted_kernel (Inr (PStr ''use the sql tool'')))
     exec_syntax_errors ''token''
     \<lparr>req_message = ''How many customers?'', req_context = None\<rparr> ([], 0) =
     (\<lparr>response_type = ERROR, data = [(''error'', PStr ''Could not determine tool'')],
               tool_used = ''unknown'', success = False\<rparr>, ([], 0))"
  by (simp add: agent_endpoint_def get_tool_decision_def scripted_kernel_def parse_decision_def
        error_response_def)

section \<open>Properties of the chart classification tool\<close>

text \<open>
  Inside the rendering pipeline a failed classification is replaced by the chart type
  \<open>bar\<close> and the pipeline goes on.
\<close>

lemma classify_step_defaults_to_bar:
  "kern (Skill ''playground'' ''chart_classifier'') token
     (PDict [(''query'', query), (''headers'', headers), (''rows'', rows)]) w = (Inl e, w1) \<Longrightarrow>
   is_kernel_exception e \<Longrightarrow>
   classify_step kern token query headers rows w = (Inr ''bar'', w1)"
  by (simp add: classify_step_def)

lemma bind_classify_arguments:
  "bind_arguments ''_run_classify_chart_type'' [''query'', ''headers'', ''rows''] []
     [(''query'', query), (''headers'', headers), (''rows'', rows)] = Inr ()"
  by (simp add: bind_arguments_def)

text \<open>
  Claim C5 does not hold for the tool. When the remote classification call raises, the
  tool's result carries \<open>chart_type = "bar"\<close> but reports no success; the wrapper
  raises the error text, and the turn ends with the error response.
\<close>

theorem classification_failure_is_raised:
  assumes "py_len rows = Inr n" and "py_len headers = Inr m"
    and "kern (Skill ''playground'' ''chart_classifier'') token
           (PDict [(''query'', query), (''headers'', headers), (''rows'', rows)]) w = (Inl e, w1)"
  shows "tool_classify_chart_type kern token query headers rows w =
           (Inr [(''success'', PBool False), (''error'', PStr (exn_str e)),
                 (''chart_type'', PStr ''bar'')], w1) \<and>
         run_classify_chart_type kern token query headers rows w =
           (Inl (Exception (exn_str e)), w1) \<and>
         execute_with_retry (execute_tool (classify_only kern token))
           \<lparr>tool = ''classify_chart_type'',
            arguments = [(''query'', query), (''headers'', headers), (''rows'', rows)]\<rparr>
           message ctx (calls, w) =
           (error_response (exn_str e) ''classify_chart_type'',
            (calls @ [(''classify_chart_type'',
                       [(''query'', query), (''headers'', headers), (''rows'', rows)])], w1))"
proof -
  have t: "tool_classify_chart_type kern token query headers rows w =
           (Inr [(''success'', PBool False), (''error'', PStr (exn_str e)),
                 (''chart_type'', PStr ''bar'')], w1)"
    using assms by (simp add: tool_classify_chart_type_def classify_failure_def)
  have r: "run_classify_chart_type kern token query headers rows w =
           (Inl (Exception (exn_str e)), w1)"
    using assms(1) t by (simp add: run_classify_chart_type_def dict_index_def dict_get_def)
  have x: "execute_tool (classify_only kern token) ''classify_chart_type''
             [(''query'', query), (''headers'', headers), (''rows'', rows)] w =
           (Inl (Exception (exn_str e)), w1)"
    using r by (simp add: execute_tool_def classify_only_def bind_classify_arguments dict_get_def)
  have "execute_with_retry (execute_tool (classify_only kern token))
           \<lparr>tool = ''classify_chart_type'',
            arguments = [(''query'', query), (''headers'', headers), (''rows'', rows)]\<rparr>
           message ctx (calls, w) =
           (error_response (exn_str e) ''classify_chart_type'',
            (calls @ [(''classify_chart_type'',
                       [(''query'', query), (''headers'', headers), (''rows'', rows)])], w1))"
    using x by (simp add: execute_with_retry_def call_tool_def)
  with t r show ?thesis by simp
qed

theorem classification_failure_is_raised_witness:
  "run_classify_chart_type (scripted_kernel (Inl (KernelException 503 ''Service Unavailable'')))
     ''token'' (PStr ''SELECT n FROM t'') (PList [PStr ''n'']) (PList [PList [PInt 1]]) (0::nat) =
     (Inl (Exception ''Service Unavailable''), 0) \<and>
   execute_with_retry
     (execute_tool
        (classify_only (scripted_kernel (Inl (KernelException 503 ''Service Unavailable'')))
           ''token''))
     \<lparr>tool = ''classify_chart_type'',
      arguments = [(''query'', PStr ''SELECT n FROM t''), (''headers'', PList [PStr ''n'']),
                   (''rows'', PList [PList [PInt 1]])]\<rparr>
     ''which chart?'' [] ([], 0::nat) =
     (error_response ''Service Unavailable'' ''classify_chart_type'',
      ([(''classify_chart_type'',
         [(''query'', PStr ''SELECT n FROM t''), (''headers'', PList [PStr ''n'']),
          (''rows'', PList [PList [PInt 1]])])], 0))"
proof -
  have h1: "py_len (PList [PList [PInt 1]]) = Inr 1" by simp
  have h2: "py_len (PList [PStr ''n'']) = Inr 1" by simp
  have h3: "scripted_kernel (Inl (KernelException 503 ''Service Unavailable''))
              (Skill ''playground'' ''chart_classifier'') ''token''
              (PDict [(''query'', PStr ''SELECT n FROM t''), (''headers'', PList [PStr ''n'']),
                      (''rows'', PList [PList [PInt 1]])]) (0::nat) =
            (Inl (KernelException 503 ''Service Unavailable''), 0)"
    by (simp add: scripted_kernel_def)
  show ?thesis
    using classification_failure_is_raised
            [where kern = "scripted_kernel (Inl (KernelException 503 ''Service Unavailable''))"
               and message = "''which chart?''" and ctx = "[]" and calls = "[]", OF h1 h2 h3]
    by simp
qed

section \<open>Properties of the chart code acquisition\<close>

text \<open>
  A failure of \<open>_generate_chart_code\<close> is the failure of the whole pipeline: no
  workspace is created and no process is started.
\<close>

lemma generate_chart_image_no_code:
  assumes "py_len rows = Inr n" and "py_len headers = Inr m"
    and "(if truthy rows then py_slice3 rows else Inr rows) = Inr sample"
    and "generate_chart_code kern token query headers rows w = (Inl e, w1)"
  shows "generate_chart_image sys kern token query headers rows w = (Inl e, w1)"
    and "run_generate_chart sys kern token query headers rows w = (Inl (Exception (exn_str e)), w1)"
proof -
  show g: "generate_chart_image sys kern token query headers rows w = (Inl e, w1)"
    using assms by (simp add: generate_chart_image_def)
  have "tool_generate_chart sys kern token query headers rows w =
          (Inr [(''success'', PBool False), (''error'', PStr (exn_str e))], w1)"
    using assms(1,2) g by (simp add: tool_generate_chart_def)
  then show "run_generate_chart sys kern token query headers rows w =
          (Inl (Exception (exn_str e)), w1)"
    using assms(1) by (simp add: run_generate_chart_def dict_index_def dict_get_def)
qed

text \<open>
  Claim C9, as amended. When the reply of the remote code generation holds no code, the
  pipeline fails with \<open>Failed to generate chart code\<close>; when the remote call raises a
  \<open>KernelException\<close>, it fails with \<open>Chart generation skill not available\<close>. In both
  cases the failure is that of \<open>_generate_chart_code\<close>, of \<open>generate_chart_image\<close>
  and of the \<open>generate_chart\<close> tool, and the world is left as the remote call left it.
\<close>

theorem chart_code_acquisition_failure:
  assumes "py_len rows = Inr n" and "py_len headers = Inr m"
    and "(if truthy rows then py_slice3 rows else Inr rows) = Inr sample"
    and "classify_step kern token query headers rows w = (Inr chart_type, w1)"
    and "kern (Skill ''playground'' ''chart_generator'') token
           (PDict [(''chart_type'', PStr chart_type), (''query'', query),
                   (''headers'', headers), (''rows'', rows)]) w1 = (reply, w2)"
  shows "((\<exists>r. reply = Inr (PDict r) \<and> \<not> truthy (dict_get r ''chart_code'' PNone)) \<longrightarrow>
            generate_chart_code kern token query headers rows w =
              (Inl (Exception ''Failed to generate chart code''), w2) \<and>
            generate_chart_image sys kern token query headers rows w =
              (Inl (Exception ''Failed to generate chart code''), w2) \<and>
            run_generate_chart sys kern token query headers rows w =
              (Inl (Exception ''Failed to generate chart code''), w2)) \<and>
         ((\<exists>e. reply = Inl e \<and> is_kernel_exception e) \<longrightarrow>
            generate_chart_code kern token query headers rows w =
              (Inl (Exception ''Chart generation skill not available''), w2) \<and>
            generate_chart_image sys kern token query headers rows w =
              (Inl (Exception ''Chart generation skill not available''), w2) \<and>
            run_generate_chart sys kern token query headers rows w =
              (Inl (Exception ''Chart generation skill not available''), w2))"
proof (intro conjI impI)
  assume "\<exists>r. reply = Inr (PDict r) \<and> \<not> truthy (dict_get r ''chart_code'' PNone)"
  then have c: "generate_chart_code kern token query headers rows w =
              (Inl (Exception ''Failed to generate chart code''), w2)"
    using assms(1,4,5) by (auto simp add: generate_chart_code_def)
  then show "generate_chart_code kern token query headers rows w =
              (Inl (Exception ''Failed to generate chart code''), w2)" .
  from generate_chart_image_no_code [OF assms(1,2,3) c]
  show "generate_chart_image sys kern token query headers rows w =
              (Inl (Exception ''Failed to generate chart code''), w2)"
    and "run_generate_chart sys kern token query headers rows w =
              (Inl (Exception ''Failed to generate chart code''), w2)"
    by simp_all
next
  assume "\<exists>e. reply = Inl e \<and> is_kernel_exception e"
  then have c: "generate_chart_code kern token query headers rows w =
              (Inl (Exception ''Chart generation skill not available''), w2)"
    using assms(1,4,5) by (auto simp add: generate_chart_code_def)
  then show "generate_chart_code kern token query headers rows w =
              (Inl (Exception ''Chart generation skill not available''), w2)" .
  from generate_chart_image_no_code [OF assms(1,2,3) c]
  show "generate_chart_image sys kern token query headers rows w =
              (Inl (Exception ''Chart generation skill not available''), w2)"
    and "run_generate_chart sys kern token query headers rows w =
              (Inl (Exception ''Chart generation skill not available''), w2)"
    by simp_all
qed

theorem chart_code_acquisition_failure_witness:
  "run_generate_chart (example_sys Saves)
     (scripted_kernel (Inr (PDict [(''chart_type'', PStr ''line'')])))
     ''token'' (PStr ''SELECT n FROM t'') (PList [PStr ''n'']) (PList [PList [PInt 1]]) empty_world =
     (Inl (Exception ''Failed to generate chart code''), empty_world) \<and>
   run_generate_chart (example_sys Saves)
     (scripted_kernel (Inl (KernelException 503 ''Service Unavailable'')))
     ''token'' (PStr ''SELECT n FROM t'') (PList [PStr ''n'']) (PList [PList [PInt 1]]) empty_world =
     (Inl (Exception ''Chart generation skill not available''), empty_world)"
proof -
  let ?k1 = "scripted_kernel (Inr (PDict [(''chart_type'', PStr ''line'')])) :: nat world kernel"
  let ?k2 = "scripted_kernel (Inl (KernelException 503 ''Service Unavailable'')) :: nat world kernel"
  let ?q = "PStr ''SELECT n FROM t''" and ?h = "PList [PStr ''n'']" and ?r = "PList [PList [PInt 1]]"
  have h1: "py_len ?r = Inr 1" and h2: "py_len ?h = Inr 1"
    and h3: "(if truthy ?r then py_slice3 ?r else Inr ?r) = Inr ?r"
    by simp_all
  have c1: "classify_step ?k1 ''token'' ?q ?h ?r empty_world = (Inr ''line'', empty_world)"
    by (simp add: classify_step_def scripted_kernel_def dict_get_def)
  have c2: "classify_step ?k2 ''token'' ?q ?h ?r empty_world = (Inr ''bar'', empty_world)"
    by (simp add: classify_step_def scripted_kernel_def)
  have g1: "?k1 (Skill ''playground'' ''chart_generator'') ''token''
              (PDict [(''chart_type'', PStr ''line''), (''query'', ?q), (''headers'', ?h),
                      (''rows'', ?r)]) empty_world =
            (Inr (PDict [(''chart_type'', PStr ''line'')]), empty_world)"
    by (simp add: scripted_kernel_def)
  have g2: "?k2 (Skill ''playground'' ''chart_generator'') ''token''
              (PDict [(''chart_type'', PStr ''bar''), (''query'', ?q), (''headers'', ?h),
                      (''rows'', ?r)]) empty_world =
            (Inl (KernelException 503 ''Service Unavailable''), empty_world)"
    by (simp add: scripted_kernel_def)
  show ?thesis
    using chart_code_acquisition_failure [where sys = "example_sys Saves" and kern = ?k1, OF h1 h2 h3 c1 g1]
          chart_code_acquisition_failure [where sys = "example_sys Saves" and kern = ?k2, OF h1 h2 h3 c2 g2]
    by (simp add: dict_get_def)
qed

text \<open>
  The claim as stated: a reply without code does not give the error
  \<open>Chart generation skill not available\<close>.
\<close>

theorem no_code_counterexample:
  "generate_chart_code (scripted_kernel (Inr (PDict [(''chart_type'', PStr ''line'')])))
     ''token'' (PStr ''SELECT n FROM t'') (PList [PStr ''n'']) (PList [PList [PInt 1]]) (0::nat) =
     (Inl (Exception ''Failed to generate chart code''), 0) \<and>
   generate_chart_code (scripted_kernel (Inr (PDict [(''chart_type'', PStr ''line'')])))
     ''token'' (PStr ''SELECT n FROM t'') (PList [PStr ''n'']) (PList [PList [PInt 1]]) (0::nat) \<noteq>
     (Inl (Exception ''Chart generation skill not available''), 0)"
  by (simp add: generate_chart_code_def classify_step_def scripted_kernel_def dict_get_def)

section \<open>Properties of the rendering sandbox\<close>

















section \<open>Properties of the data preparation step\<close>

text \<open>
  The quotient is only computed for a column with at least one cell that became a number,
  so the table has at least one row and the division is by a positive number.
\<close>

lemma ratio_above_half:
  assumes "c \<le> n"
  shows "((of_nat c :: rat) / of_nat n > 1 / 2) = (n < 2 * c)"
proof (cases "n = 0")
  case True
  with assms show ?thesis by simp
next
  case False
  then have "(of_nat n :: rat) > 0" by simp
  then have "((of_nat c :: rat) / of_nat n > 1 / 2) = ((of_nat n :: rat) < 2 * of_nat c)"
    by (simp add: field_simps)
  also have "\<dots> = ((of_nat n :: rat) < of_nat (2 * c))" by simp
  also have "\<dots> = (n < 2 * c)" by (simp only: of_nat_less_iff)
  finally show ?thesis .
qed

lemma notna_sum_le: "notna_sum (to_numeric parse col) \<le> length col"
  by (simp add: notna_sum_def to_numeric_def order_trans [OF length_filter_le])

lemma notna_sum_to_numeric:
  "notna_sum (to_numeric parse col) =
   length (filter (\<lambda>cell. case cell of None \<Rightarrow> False | Some s \<Rightarrow> parse s \<noteq> None) col)"
  by (induction col) (simp_all add: notna_sum_def to_numeric_def split: option.splits)

lemma isna_all_iff: "isna_all series = (notna_sum series = 0)"
  by (induction series) (simp_all add: isna_all_def notna_sum_def)

lemma fillna_to_numeric:
  "fillna fill (to_numeric parse col) =
   map (\<lambda>cell. case cell of None \<Rightarrow> fill
               | Some s \<Rightarrow> (case parse s of None \<Rightarrow> fill | Some x \<Rightarrow> x)) col"
  by (induction col) (simp_all add: fillna_def to_numeric_def split: option.splits)

text \<open>The body of the loop, for one column of text.\<close>

lemma clean_column_threshold:
  "clean_column parse fill col =
     (if length col <
           2 * length (filter (\<lambda>cell. case cell of None \<Rightarrow> False
                                      | Some s \<Rightarrow> parse s \<noteq> None) col)
      then NumericColumn
             (map (\<lambda>cell. case cell of None \<Rightarrow> fill
                         | Some s \<Rightarrow> (case parse s of None \<Rightarrow> fill | Some x \<Rightarrow> x)) col)
      else TextColumn col)"
proof -
  let ?c = "notna_sum (to_numeric parse col)"
  have half: "((of_nat ?c :: rat) / of_nat (length col) > 1 / 2) = (length col < 2 * ?c)"
    by (rule ratio_above_half [OF notna_sum_le])
  have "clean_column parse fill col =
          (if length col < 2 * ?c then NumericColumn (fillna fill (to_numeric parse col))
           else TextColumn col)"
    unfolding clean_column_def Let_def half isna_all_iff by auto
  then show ?thesis
    by (simp only: notna_sum_to_numeric fillna_to_numeric)
qed

text \<open>
  The loop. When the labels are all different, every label selects its own column and the
  loop treats each column once. A label that occurs twice makes the loop raise when it
  reaches it, whatever the columns hold.
\<close>

lemma select_column_unique:
  "distinct (map fst df) \<Longrightarrow> (col, c) \<in> set df \<Longrightarrow> select_column df col = Inr c"
proof -
  assume d: "distinct (map fst df)" and m: "(col, c) \<in> set df"
  have "filter (\<lambda>lc. fst lc = col) df = [(col, c)]"
    using d m
  proof (induction df)
    case Nil
    then show ?case by simp
  next
    case (Cons lc df)
    show ?case
    proof (cases "lc = (col, c)")
      case True
      with Cons.prems(1) have "filter (\<lambda>lc. fst lc = col) df = []"
        by (auto simp add: filter_empty_conv)
      with True show ?thesis by simp
    next
      case False
      with Cons.prems have "(col, c) \<in> set df" and "fst lc \<noteq> col"
        by (auto simp add: image_iff)
      with Cons show ?thesis by simp
    qed
  qed
  then show ?thesis by (simp add: select_column_def)
qed

lemma select_column_repeated:
  "1 < length (filter (\<lambda>lc. fst lc = col) df) \<Longrightarrow> \<exists>e. select_column df col = Inl e"
  by (cases "filter (\<lambda>lc. fst lc = col) df" rule: list.exhaust)
     (auto simp add: select_column_def split: list.splits)

lemma labels_assign_column [simp]: "map fst (assign_column df col c) = map fst df"
  by (induction df) (simp_all add: assign_column_def)

lemma count_label:
  "length (filter (\<lambda>lc. fst lc = k) df) = length (filter (\<lambda>l. l = k) (map fst df))"
  by (induction df) simp_all

lemma filter_assign_column:
  "length (filter (\<lambda>lc. fst lc = k) (assign_column df col c)) =
   length (filter (\<lambda>lc. fst lc = k) df)"
  by (simp only: count_label labels_assign_column)

lemma clean_loop_distinct:
  assumes "distinct (map fst df)" and "distinct cols" and "set cols \<subseteq> fst ` set df"
  shows "clean_loop parse fill cols df =
           Inr (map (\<lambda>lc. if fst lc \<in> set cols
                           then (fst lc, case snd lc of
                                           NumericColumn xs \<Rightarrow> NumericColumn xs
                                         | TextColumn cells \<Rightarrow> clean_column parse fill cells)
                           else lc) df)"
  using assms
proof (induction cols arbitrary: df)
  case Nil
  then show ?case by simp
next
  case (Cons col cols)
  from Cons.prems(3) obtain c where c: "(col, c) \<in> set df" by auto
  have sel: "select_column df col = Inr c"
    by (rule select_column_unique [OF Cons.prems(1) c])
  have uniq: "\<And>lc. lc \<in> set df \<Longrightarrow> fst lc = col \<Longrightarrow> lc = (col, c)"
    using Cons.prems(1) c by (metis eq_key_imp_eq_value prod.collapse)
  let ?c' = "case c of NumericColumn xs \<Rightarrow> NumericColumn xs
                     | TextColumn cells \<Rightarrow> clean_column parse fill cells"
  let ?df' = "assign_column df col ?c'"
  have step: "clean_loop parse fill (col # cols) df = clean_loop parse fill cols ?df'"
  proof (cases c)
    case (NumericColumn xs)
    have "?df' = df"
      using uniq NumericColumn by (auto simp add: assign_column_def map_idI)
    with sel NumericColumn show ?thesis by simp
  next
    case (TextColumn cells)
    show ?thesis
    proof (cases "clean_column parse fill cells")
      case (NumericColumn xs)
      with sel TextColumn show ?thesis by simp
    next
      case kept: (TextColumn kept)
      then have "kept = cells"
        by (simp add: clean_column_def Let_def split: if_splits)
      with kept TextColumn uniq have "?df' = df"
        by (auto simp add: assign_column_def map_idI)
      with sel TextColumn kept show ?thesis by simp
    qed
  qed
  have d': "distinct (map fst ?df')" using Cons.prems(1) by simp
  have s': "set cols \<subseteq> fst ` set ?df'"
  proof -
    have "fst ` set ?df' = fst ` set df"
      by (metis labels_assign_column set_map)
    with Cons.prems(3) show ?thesis by auto
  qed
  from Cons.prems(2) have dc: "distinct cols" and nc: "col \<notin> set cols" by simp_all
  have "clean_loop parse fill cols ?df' =
          Inr (map (\<lambda>lc. if fst lc \<in> set cols
                           then (fst lc, case snd lc of
                                           NumericColumn xs \<Rightarrow> NumericColumn xs
                                         | TextColumn cells \<Rightarrow> clean_column parse fill cells)
                           else lc) ?df')"
    by (rule Cons.IH [OF d' dc s'])
  also have "map (\<lambda>lc. if fst lc \<in> set cols
                           then (fst lc, case snd lc of
                                           NumericColumn xs \<Rightarrow> NumericColumn xs
                                         | TextColumn cells \<Rightarrow> clean_column parse fill cells)
                           else lc) ?df' =
             map (\<lambda>lc. if fst lc \<in> set (col # cols)
                           then (fst lc, case snd lc of
                                           NumericColumn xs \<Rightarrow> NumericColumn xs
                                         | TextColumn cells \<Rightarrow> clean_column parse fill cells)
                           else lc) df"
    using uniq nc by (auto simp add: assign_column_def)
  finally show ?case using step by simp
qed

lemma clean_loop_repeated:
  assumes "col \<in> set cols" and "1 < length (filter (\<lambda>lc. fst lc = col) df)"
  shows "\<exists>e. clean_loop parse fill cols df = Inl e"
  using assms
proof (induction cols arbitrary: df)
  case Nil
  then show ?case by simp
next
  case (Cons c cols)
  show ?case
  proof (cases "select_column df c")
    case (Inl e)
    then show ?thesis by simp
  next
    case (Inr column)
    with select_column_repeated [OF Cons.prems(2)] have "c \<noteq> col" by auto
    with Cons.prems(1) have m: "col \<in> set cols" by simp
    have a: "\<exists>e. clean_loop parse fill cols df = Inl e"
      by (rule Cons.IH [OF m Cons.prems(2)])
    have b: "\<exists>e. clean_loop parse fill cols (assign_column df c x) = Inl e" for x
      using Cons.prems(2) by (intro Cons.IH [OF m]) (simp add: filter_assign_column)
    show ?thesis
      using Inr a b
      by (cases column) (auto split: column.splits)
  qed
qed

lemma repeated_label:
  assumes "\<not> distinct (map fst df)"
  shows "\<exists>col \<in> set (map fst df). 1 < length (filter (\<lambda>lc. fst lc = col) df)"
proof -
  from assms obtain xs ys zs y where d: "map fst df = xs @ [y] @ ys @ [y] @ zs"
    using not_distinct_decomp by blast
  have "length (filter (\<lambda>lc. fst lc = y) df) = length (filter (\<lambda>l. l = y) (map fst df))"
    by (rule count_label)
  also have "\<dots> \<ge> 2" unfolding d by simp
  finally have "1 < length (filter (\<lambda>lc. fst lc = y) df)" by simp
  moreover have "y \<in> set (map fst df)" unfolding d by simp
  ultimately show ?thesis by blast
qed

lemma prepare_data_repeated_label:
  assumes "\<not> distinct (map fst df)"
  shows "\<exists>e. prepare_data parse fill df = Inl e"
proof -
  from repeated_label [OF assms] obtain col
    where "col \<in> set (map fst df)" and "1 < length (filter (\<lambda>lc. fst lc = col) df)"
    by blast
  then show ?thesis
    unfolding prepare_data_def by (rule clean_loop_repeated)
qed


text \<open>
  Claim C8, as amended. In a table whose column labels are all different, the data
  preparation leaves every numeric column as it is and replaces a text column by its
  numeric coercion, with the fill value for every cell that is missing or does not
  convert, exactly when the cells that convert are strictly more than half of all the
  rows of the table, missing cells included; otherwise the column is kept as text.
\<close>

theorem column_typing_threshold:
  assumes "distinct (map fst df)"
  shows "prepare_data parse fill df =
     Inr (map (\<lambda>lc.
            (fst lc,
             case snd lc of
               NumericColumn xs \<Rightarrow> NumericColumn xs
             | TextColumn cells \<Rightarrow>
                 if length cells <
                      2 * length (filter (\<lambda>cell. case cell of None \<Rightarrow> False
                                                 | Some s \<Rightarrow> parse s \<noteq> None) cells)
                 then NumericColumn
                        (map (\<lambda>cell. case cell of None \<Rightarrow> fill
                                    | Some s \<Rightarrow> (case parse s of None \<Rightarrow> fill | Some x \<Rightarrow> x))
                           cells)
                 else TextColumn cells)) df)"
proof -
  have "prepare_data parse fill df =
          Inr (map (\<lambda>lc. if fst lc \<in> set (map fst df)
                          then (fst lc, case snd lc of
                                          NumericColumn xs \<Rightarrow> NumericColumn xs
                                        | TextColumn cells \<Rightarrow> clean_column parse fill cells)
                          else lc) df)"
    unfolding prepare_data_def
    by (rule clean_loop_distinct [OF assms assms]) simp
  also have "map (\<lambda>lc. if fst lc \<in> set (map fst df)
                          then (fst lc, case snd lc of
                                          NumericColumn xs \<Rightarrow> NumericColumn xs
                                        | TextColumn cells \<Rightarrow> clean_column parse fill cells)
                          else lc) df =
             map (\<lambda>lc. (fst lc, case snd lc of
                                    NumericColumn xs \<Rightarrow> NumericColumn xs
                                  | TextColumn cells \<Rightarrow> clean_column parse fill cells)) df"
    by (rule map_cong) simp_all
  finally show ?thesis
    by (simp only: clean_column_threshold)
qed

lemma parse_examples:
  "parse_decimal ''1'' = Some 1" "parse_decimal ''2'' = Some 2" "parse_decimal ''3'' = Some 3"
  "parse_decimal ''4'' = Some 4" "parse_decimal ''x'' = None" "parse_decimal ''a'' = None"
  "parse_decimal ''b'' = None" "parse_decimal ''c'' = None"
  by code_simp+

text \<open>The two columns of the specification, each in a table of its own.\<close>

theorem column_typing_threshold_witness:
  "prepare_data parse_decimal 0
     [(''amount'', TextColumn [Some ''1'', Some ''2'', Some ''x'', Some ''3'', Some ''4''])] =
     Inr [(''amount'', NumericColumn [1, 2, 0, 3, 4])] \<and>
   prepare_data parse_decimal 0
     [(''name'', TextColumn [Some ''1'', Some ''a'', Some ''b'', Some ''c''])] =
     Inr [(''name'', TextColumn [Some ''1'', Some ''a'', Some ''b'', Some ''c''])]"
proof -
  have d1: "distinct (map fst [(''amount'',
              TextColumn [Some ''1'', Some ''2'', Some ''x'', Some ''3'', Some ''4''])])"
    and d2: "distinct (map fst [(''name'',
              TextColumn [Some ''1'', Some ''a'', Some ''b'', Some ''c''])])"
    by simp_all
  show ?thesis
    using column_typing_threshold [OF d1, of parse_decimal 0]
          column_typing_threshold [OF d2, of parse_decimal 0]
    by (simp add: parse_examples)
qed

text \<open>
  The claim as stated counts against the non-missing cells. In the column
  \<open>["1", None, None]\<close> the only non-missing cell converts, and the column stays text:
  one cell out of three rows is not more than half.
\<close>

theorem non_missing_share_counterexample:
  "filter (\<lambda>cell. cell \<noteq> None) [Some ''1'', None, None] = [Some ''1''] \<and>
   parse_decimal ''1'' = Some 1 \<and>
   length (filter (\<lambda>cell. cell \<noteq> None) [Some ''1'', None, None]) <
     2 * notna_sum (to_numeric parse_decimal [Some ''1'', None, None]) \<and>
   prepare_data parse_decimal 0 [(''amount'', TextColumn [Some ''1'', None, None])] =
     Inr [(''amount'', TextColumn [Some ''1'', None, None])]"
  by (simp add: prepare_data_def select_column_def clean_column_def Let_def to_numeric_def
        notna_sum_def isna_all_def parse_examples)

end
